theory Spec2Isabelle
  imports Complex_Main "HOL-Library.Sublist"
begin

section \<open>Meeting-minutes generator: the embedding\<close>

text \<open>
  The program is \<^verbatim>\<open>scripts/ai_minutes_generator.py\<close>: a transcript is sent to a chat
  completion service, the JSON answer is rendered to HTML, an optional suggestion block
  is appended, and the page is created or updated in Confluence.

  Python values that come out of \<^verbatim>\<open>json.loads\<close> or \<^verbatim>\<open>response.json()\<close> are
  dynamically typed, so they are modelled by one datatype of JSON values, and every
  Python operation the program applies to them is a function that returns either the
  exception Python raises or the result. Numbers are the integers; a JSON number with a
  fraction or an exponent is outside the model. A dictionary is an association list read
  with \<open>map_of\<close>; the lists that stand for dictionaries have distinct keys.
\<close>

subsection \<open>Exceptions and JSON values\<close>

datatype exn =
    AttributeError
  | TypeError
  | KeyError
  | IndexError
  | JSONDecodeError
  | ImportError
  | Exception string
  | OtherError string

datatype json =
    JNull
  | JBool bool
  | JInt int
  | JStr string
  | JArr "json list"
  | JObj "(string \<times> json) list"

definition bind_exn :: "exn + 'a \<Rightarrow> ('a \<Rightarrow> exn + 'b) \<Rightarrow> exn + 'b" where
  "bind_exn r f = (case r of Inl x \<Rightarrow> Inl x | Inr a \<Rightarrow> f a)"

text \<open>\<^verbatim>\<open>d.get(key, default)\<close>: only a dictionary has the method.\<close>

definition py_get :: "json \<Rightarrow> string \<Rightarrow> json \<Rightarrow> exn + json" where
  "py_get d k dflt =
     (case d of
        JObj kvs \<Rightarrow> (case map_of kvs k of None \<Rightarrow> Inr dflt | Some v \<Rightarrow> Inr v)
      | _ \<Rightarrow> Inl AttributeError)"

text \<open>\<^verbatim>\<open>d[key]\<close> with a string key.\<close>

definition py_item :: "json \<Rightarrow> string \<Rightarrow> exn + json" where
  "py_item d k =
     (case d of
        JObj kvs \<Rightarrow> (case map_of kvs k of None \<Rightarrow> Inl KeyError | Some v \<Rightarrow> Inr v)
      | _ \<Rightarrow> Inl TypeError)"

text \<open>\<^verbatim>\<open>x[0]\<close>: the keys of a parsed JSON object are strings, so \<open>0\<close> is never one.\<close>

definition py_first :: "json \<Rightarrow> exn + json" where
  "py_first x =
     (case x of
        JArr [] \<Rightarrow> Inl IndexError
      | JArr (v # _) \<Rightarrow> Inr v
      | JStr [] \<Rightarrow> Inl IndexError
      | JStr (c # _) \<Rightarrow> Inr (JStr [c])
      | JObj _ \<Rightarrow> Inl KeyError
      | _ \<Rightarrow> Inl TypeError)"

text \<open>Truth value of a value in \<^verbatim>\<open>if x:\<close>.\<close>

definition py_truthy :: "json \<Rightarrow> bool" where
  "py_truthy x =
     (case x of
        JNull \<Rightarrow> False
      | JBool b \<Rightarrow> b
      | JInt n \<Rightarrow> n \<noteq> 0
      | JStr s \<Rightarrow> s \<noteq> []
      | JArr xs \<Rightarrow> xs \<noteq> []
      | JObj kvs \<Rightarrow> kvs \<noteq> [])"

text \<open>
  The items a \<^verbatim>\<open>for\<close> loop (or \<^verbatim>\<open>str.join\<close>) draws from a value: the elements of a
  list, the one-character strings of a string, the keys of a dictionary.
\<close>

definition py_iter :: "json \<Rightarrow> exn + json list" where
  "py_iter x =
     (case x of
        JArr xs \<Rightarrow> Inr xs
      | JStr s \<Rightarrow> Inr (map (\<lambda>c. JStr [c]) s)
      | JObj kvs \<Rightarrow> Inr (map (\<lambda>kv. JStr (fst kv)) kvs)
      | _ \<Rightarrow> Inl TypeError)"

definition py_len :: "json \<Rightarrow> exn + nat" where
  "py_len x =
     (case x of
        JArr xs \<Rightarrow> Inr (length xs)
      | JStr s \<Rightarrow> Inr (length s)
      | JObj kvs \<Rightarrow> Inr (length kvs)
      | _ \<Rightarrow> Inl TypeError)"

fun join :: "string \<Rightarrow> string list \<Rightarrow> string" where
  "join sep [] = []"
| "join sep [x] = x"
| "join sep (x # y # ys) = x @ sep @ join sep (y # ys)"

fun str_items :: "json list \<Rightarrow> exn + string list" where
  "str_items [] = Inr []"
| "str_items (JStr s # xs) = bind_exn (str_items xs) (\<lambda>ss. Inr (s # ss))"
| "str_items (_ # xs) = Inl TypeError"

text \<open>\<^verbatim>\<open>sep.join(x)\<close>: every item must be a string.\<close>

definition py_join :: "string \<Rightarrow> json \<Rightarrow> exn + string" where
  "py_join sep x =
     bind_exn (py_iter x) (\<lambda>items.
     bind_exn (str_items items) (\<lambda>ss. Inr (join sep ss)))"

subsection \<open>Decimal numerals and the clock\<close>

definition digit_char :: "nat \<Rightarrow> char" where
  "digit_char d =
     (if d = 0 then CHR ''0'' else if d = 1 then CHR ''1'' else if d = 2 then CHR ''2''
      else if d = 3 then CHR ''3'' else if d = 4 then CHR ''4'' else if d = 5 then CHR ''5''
      else if d = 6 then CHR ''6'' else if d = 7 then CHR ''7'' else if d = 8 then CHR ''8''
      else CHR ''9'')"

fun str_nat :: "nat \<Rightarrow> string" where
  "str_nat n =
     (if n < 10 then [digit_char n] else str_nat (n div 10) @ [digit_char (n mod 10)])"

definition str_int :: "int \<Rightarrow> string" where
  "str_int i = (if i < 0 then ''-'' @ str_nat (nat (- i)) else str_nat (nat i))"

text \<open>
  A reading of \<^verbatim>\<open>datetime.now()\<close>. \<^verbatim>\<open>strftime\<close> pads each field with zeros; the
  year is rendered for the years 1000 to 9999.
\<close>

record datetime =
  year :: nat
  month :: nat
  day :: nat
  hour :: nat
  minute :: nat
  second :: nat
  microsecond :: nat

definition pad2 :: "nat \<Rightarrow> string" where
  "pad2 n = (if n < 10 then ''0'' @ str_nat n else str_nat n)"

definition pad4 :: "nat \<Rightarrow> string" where
  "pad4 n = replicate (4 - length (str_nat n)) (CHR ''0'') @ str_nat n"

text \<open>\<^verbatim>\<open>strftime('%Y-%m-%d')\<close>, \<^verbatim>\<open>strftime('%Y%m%d')\<close> and
  \<^verbatim>\<open>strftime('%Y-%m-%d %H:%M:%S')\<close>.\<close>

definition strftime_date :: "datetime \<Rightarrow> string" where
  "strftime_date t = pad4 (year t) @ ''-'' @ pad2 (month t) @ ''-'' @ pad2 (day t)"

definition strftime_compact :: "datetime \<Rightarrow> string" where
  "strftime_compact t = pad4 (year t) @ pad2 (month t) @ pad2 (day t)"

definition strftime_stamp :: "datetime \<Rightarrow> string" where
  "strftime_stamp t =
     strftime_date t @ '' '' @ pad2 (hour t) @ '':'' @ pad2 (minute t) @ '':'' @ pad2 (second t)"

subsection \<open>Formatting a value into an f-string\<close>

text \<open>
  \<^verbatim>\<open>f"{x}"\<close> is \<^verbatim>\<open>str(x)\<close>, which never raises. The text Python prints for a list or
  a dictionary (their \<^verbatim>\<open>repr\<close>) is a parameter.
\<close>

definition fmt :: "(json \<Rightarrow> string) \<Rightarrow> json \<Rightarrow> string" where
  "fmt repr x =
     (case x of
        JNull \<Rightarrow> ''None''
      | JBool b \<Rightarrow> (if b then ''True'' else ''False'')
      | JInt i \<Rightarrow> str_int i
      | JStr s \<Rightarrow> s
      | _ \<Rightarrow> repr x)"

subsection \<open>Rendering the record (\<^verbatim>\<open>format_minutes_as_html\<close>)\<close>

text \<open>The Attendees cell, line 247:
  \<^verbatim>\<open>', '.join(meeting_data.get('attendees', ['No attendees extracted']))\<close>.\<close>

definition attendees_cell :: "json \<Rightarrow> exn + string" where
  "attendees_cell meeting_data =
     bind_exn (py_get meeting_data ''attendees'' (JArr [JStr ''No attendees extracted'']))
       (py_join '', '')"

text \<open>The first f-string, lines 233 to 255, with its interpolated values.\<close>

definition head_text :: "string \<Rightarrow> string \<Rightarrow> string \<Rightarrow> string" where
  \<open>head_text meeting_date cell summary_text =
     ''\<newline>'' @
     ''        <h1>Stand-up Meeting Minutes - '' @ meeting_date @ ''</h1>\<newline>'' @
     ''        \<newline>'' @
     ''        <table>\<newline>'' @
     ''            <tr>\<newline>'' @
     ''                <th>Date</th>\<newline>'' @
     ''                <td>'' @ meeting_date @ ''</td>\<newline>'' @
     ''            </tr>\<newline>'' @
     ''            <tr>\<newline>'' @
     ''                <th>Type</th>\<newline>'' @
     ''                <td>Daily Stand-up</td>\<newline>'' @
     ''            </tr>\<newline>'' @
     ''            <tr>\<newline>'' @
     ''                <th>Attendees</th>\<newline>'' @
     ''                <td>'' @ cell @ ''</td>\<newline>'' @
     ''            </tr>\<newline>'' @
     ''        </table>\<newline>'' @
     ''        \<newline>'' @
     ''        <h2>Executive Summary</h2>\<newline>'' @
     ''        <p>'' @ summary_text @ ''</p>\<newline>'' @
     ''        \<newline>'' @
     ''        <h2>Individual Updates</h2>\<newline>'' @
     ''        ''\<close>

definition minutes_head :: "(json \<Rightarrow> string) \<Rightarrow> json \<Rightarrow> string \<Rightarrow> exn + string" where
  "minutes_head repr meeting_data meeting_date =
     bind_exn (attendees_cell meeting_data) (\<lambda>cell.
     bind_exn (py_get meeting_data ''summary'' (JStr ''No summary available.'')) (\<lambda>summary.
     Inr (head_text meeting_date cell (fmt repr summary))))"

text \<open>The body of the loop over \<^verbatim>\<open>individual_updates\<close>, lines 259 to 266.\<close>

definition update_text :: "string \<Rightarrow> string \<Rightarrow> string \<Rightarrow> string \<Rightarrow> string" where
  \<open>update_text name yesterday today blockers =
     ''\<newline>'' @
     ''            <h3>'' @ name @ ''</h3>\<newline>'' @
     ''            <ul>\<newline>'' @
     ''                <li><strong>Yesterday:</strong> '' @ yesterday @ ''</li>\<newline>'' @
     ''                <li><strong>Today:</strong> '' @ today @ ''</li>\<newline>'' @
     ''                <li><strong>Blockers:</strong> '' @ blockers @ ''</li>\<newline>'' @
     ''            </ul>\<newline>'' @
     ''            ''\<close>

definition update_block :: "(json \<Rightarrow> string) \<Rightarrow> json \<Rightarrow> exn + string" where
  "update_block repr update =
     bind_exn (py_get update ''name'' (JStr ''Unknown'')) (\<lambda>name.
     bind_exn (py_get update ''yesterday'' (JStr ''Not mentioned'')) (\<lambda>yesterday.
     bind_exn (py_get update ''today'' (JStr ''Not mentioned'')) (\<lambda>today.
     bind_exn (py_get update ''blockers'' (JStr ''None'')) (\<lambda>blockers.
     Inr (update_text (fmt repr name) (fmt repr yesterday) (fmt repr today)
            (fmt repr blockers))))))"

text \<open>A loop that appends one block per item and stops at the first exception.\<close>

fun append_blocks :: "(json \<Rightarrow> exn + string) \<Rightarrow> string \<Rightarrow> json list \<Rightarrow> exn + string" where
  "append_blocks block html [] = Inr html"
| "append_blocks block html (x # xs) =
     bind_exn (block x) (\<lambda>b. append_blocks block (html @ b) xs)"

text \<open>\<^verbatim>\<open>html += f"<li>{x}</li>"\<close>, lines 273, 305 and 313.\<close>

definition li_text :: "(json \<Rightarrow> string) \<Rightarrow> json \<Rightarrow> string" where
  "li_text repr x = ''<li>'' @ fmt repr x @ ''</li>''"

text \<open>
  The three sections that are lists of items (lines 270 to 274, 302 to 306 and 310 to
  314): under \<^verbatim>\<open>if xs:\<close>, the heading, one item per element, the closing tag.
\<close>

definition li_step :: "(json \<Rightarrow> string) \<Rightarrow> string \<Rightarrow> string \<Rightarrow> json \<Rightarrow> exn + string" where
  "li_step repr heading html xs =
     (if py_truthy xs then
        bind_exn (py_iter xs) (\<lambda>items.
        Inr (foldl (\<lambda>html x. html @ li_text repr x) (html @ heading) items @ ''</ul>''))
      else Inr html)"

text \<open>The table heading of the action items, lines 279 to 288, and a row, lines 290 to 297.\<close>

definition action_items_heading :: string where
  \<open>action_items_heading =
     ''\<newline>'' @
     ''            <h2>Action Items</h2>\<newline>'' @
     ''            <table>\<newline>'' @
     ''                <tr>\<newline>'' @
     ''                    <th>Action</th>\<newline>'' @
     ''                    <th>Assignee</th>\<newline>'' @
     ''                    <th>Due Date</th>\<newline>'' @
     ''                    <th>Priority</th>\<newline>'' @
     ''                </tr>\<newline>'' @
     ''            ''\<close>

definition row_text :: "string \<Rightarrow> string \<Rightarrow> string \<Rightarrow> string \<Rightarrow> string" where
  \<open>row_text action assignee due_date priority =
     ''\<newline>'' @
     ''                <tr>\<newline>'' @
     ''                    <td>'' @ action @ ''</td>\<newline>'' @
     ''                    <td>'' @ assignee @ ''</td>\<newline>'' @
     ''                    <td>'' @ due_date @ ''</td>\<newline>'' @
     ''                    <td>'' @ priority @ ''</td>\<newline>'' @
     ''                </tr>\<newline>'' @
     ''                ''\<close>

definition action_row :: "(json \<Rightarrow> string) \<Rightarrow> json \<Rightarrow> exn + string" where
  "action_row repr item =
     bind_exn (py_get item ''action'' (JStr '''')) (\<lambda>action.
     bind_exn (py_get item ''assignee'' (JStr ''TBD'')) (\<lambda>assignee.
     bind_exn (py_get item ''due_date'' (JStr ''TBD'')) (\<lambda>due_date.
     bind_exn (py_get item ''priority'' (JStr ''Medium'')) (\<lambda>priority.
     Inr (row_text (fmt repr action) (fmt repr assignee) (fmt repr due_date)
            (fmt repr priority))))))"

definition action_items_step :: "(json \<Rightarrow> string) \<Rightarrow> string \<Rightarrow> json \<Rightarrow> exn + string" where
  "action_items_step repr html action_items =
     (if py_truthy action_items then
        bind_exn (py_iter action_items) (\<lambda>items.
        bind_exn (append_blocks (action_row repr) (html @ action_items_heading) items) (\<lambda>html.
        Inr (html @ ''</table>'')))
      else Inr html)"

text \<open>The last f-string, lines 317 to 329, with its four counts and the time stamp.\<close>

definition foot_text :: "nat \<Rightarrow> nat \<Rightarrow> nat \<Rightarrow> nat \<Rightarrow> string \<Rightarrow> string" where
  \<open>foot_text n_attendees n_action_items n_blockers n_decisions stamp =
     ''\<newline>'' @
     ''        <hr/>\<newline>'' @
     ''        <h2>Meeting Metrics</h2>\<newline>'' @
     ''        <ul>\<newline>'' @
     ''            <li><strong>Total Attendees:</strong> '' @ str_nat n_attendees @ ''</li>\<newline>'' @
     ''            <li><strong>Action Items:</strong> '' @ str_nat n_action_items @ ''</li>\<newline>'' @
     ''            <li><strong>Blockers:</strong> '' @ str_nat n_blockers @ ''</li>\<newline>'' @
     ''            <li><strong>Decisions:</strong> '' @ str_nat n_decisions @ ''</li>\<newline>'' @
     ''        </ul>\<newline>'' @
     ''        \<newline>'' @
     ''        <hr/>\<newline>'' @
     ''        <p><em>Minutes generated automatically on '' @ stamp @ '' using AI</em></p>\<newline>'' @
     ''        ''\<close>

definition minutes_foot :: "json \<Rightarrow> json \<Rightarrow> json \<Rightarrow> json \<Rightarrow> datetime \<Rightarrow> exn + string" where
  "minutes_foot meeting_data action_items blockers decisions now =
     bind_exn (py_get meeting_data ''attendees'' (JArr [])) (\<lambda>attendees.
     bind_exn (py_len attendees) (\<lambda>n_attendees.
     bind_exn (py_len action_items) (\<lambda>n_action_items.
     bind_exn (py_len blockers) (\<lambda>n_blockers.
     bind_exn (py_len decisions) (\<lambda>n_decisions.
     Inr (foot_text n_attendees n_action_items n_blockers n_decisions (strftime_stamp now)))))))"

text \<open>
  \<^verbatim>\<open>format_minutes_as_html\<close>, lines 230 to 331. The reading of the clock at line 328
  is the argument \<open>now\<close>.
\<close>

definition format_minutes_as_html ::
  "(json \<Rightarrow> string) \<Rightarrow> json \<Rightarrow> string \<Rightarrow> datetime \<Rightarrow> exn + string" where
  "format_minutes_as_html repr meeting_data meeting_date now =
     bind_exn (minutes_head repr meeting_data meeting_date) (\<lambda>html.
     bind_exn (py_get meeting_data ''individual_updates'' (JArr [])) (\<lambda>updates.
     bind_exn (py_iter updates) (\<lambda>updates.
     bind_exn (append_blocks (update_block repr) html updates) (\<lambda>html.
     bind_exn (py_get meeting_data ''blockers'' (JArr [])) (\<lambda>blockers.
     bind_exn (li_step repr ''<h2>Blockers/Impediments</h2><ul>'' html blockers) (\<lambda>html.
     bind_exn (py_get meeting_data ''action_items'' (JArr [])) (\<lambda>action_items.
     bind_exn (action_items_step repr html action_items) (\<lambda>html.
     bind_exn (py_get meeting_data ''decisions'' (JArr [])) (\<lambda>decisions.
     bind_exn (li_step repr ''<h2>Decisions Made</h2><ul>'' html decisions) (\<lambda>html.
     bind_exn (py_get meeting_data ''key_discussions'' (JArr [])) (\<lambda>discussions.
     bind_exn (li_step repr ''<h2>Key Discussion Points</h2><ul>'' html discussions) (\<lambda>html.
     bind_exn (minutes_foot meeting_data action_items blockers decisions now) (\<lambda>foot.
     Inr (html @ foot))))))))))))))"

subsection \<open>The collaborators and the effects\<close>

text \<open>
  The completion service, the JSON codec, the remote store, the clock and the input
  files are collaborators: each is a function of the environment, and any of the calls
  may raise. What the program does to the outside is recorded in the world: the
  completion requests and the HTTP requests it sent, in order, how often it read the
  clock, and the local files and directories. Writing a local file is taken to succeed.
  Log messages are not modelled.
\<close>

record chat_request =
  model :: string
  messages :: "(string \<times> string) list"
  temperature :: rat
  max_tokens :: nat

datatype http_verb = GET | POST | PUT

record http_request =
  req_verb :: http_verb
  req_url :: string
  req_params :: "(string \<times> string) list"
  req_json :: "json option"
  req_auth :: "string \<times> string"

text \<open>A response: \<open>body_json\<close> is what \<^verbatim>\<open>response.json()\<close> returns or raises.\<close>

record http_response =
  status_code :: nat
  body_text :: string
  body_json :: "exn + json"

type_synonym path = "string list"

record env =
  chat_completion :: "chat_request \<Rightarrow> exn + string list"
  json_loads :: "string \<Rightarrow> json option"
  json_dumps :: "json \<Rightarrow> string"
  py_repr :: "json \<Rightarrow> string"
  requests_get :: "http_request \<Rightarrow> exn + http_response"
  requests_post :: "http_request \<Rightarrow> exn + http_response"
  requests_put :: "http_request \<Rightarrow> exn + http_response"
  clock :: "nat \<Rightarrow> datetime"
  read_text :: "path \<Rightarrow> exn + string"
  docx_paragraphs :: "path \<Rightarrow> exn + string list"

record world =
  chat_log :: "chat_request list"
  http_log :: "http_request list"
  ticks :: nat
  files :: "path \<rightharpoonup> string"
  dirs :: "path set"

text \<open>Sequencing of calls that change the world and may raise.\<close>

definition bind_io ::
  "(world \<Rightarrow> (exn + 'a) \<times> world) \<Rightarrow> ('a \<Rightarrow> world \<Rightarrow> (exn + 'b) \<times> world) \<Rightarrow>
   world \<Rightarrow> (exn + 'b) \<times> world" where
  "bind_io f g w = (case f w of (Inl x, w') \<Rightarrow> (Inl x, w') | (Inr a, w') \<Rightarrow> g a w')"

definition pure_io :: "exn + 'a \<Rightarrow> world \<Rightarrow> (exn + 'a) \<times> world" where
  "pure_io r w = (r, w)"

text \<open>\<^verbatim>\<open>datetime.now()\<close>: the next reading of the clock.\<close>

definition datetime_now :: "env \<Rightarrow> world \<Rightarrow> (exn + datetime) \<times> world" where
  "datetime_now e w = (Inr (clock e (ticks w)), w\<lparr>ticks := Suc (ticks w)\<rparr>)"

text \<open>\<^verbatim>\<open>openai.ChatCompletion.create(...)\<close> followed by
  \<^verbatim>\<open>response.choices[0].message.content\<close>.\<close>

definition first_content :: "string list \<Rightarrow> exn + string" where
  "first_content choices = (case choices of [] \<Rightarrow> Inl IndexError | c # _ \<Rightarrow> Inr c)"

definition chat_content :: "env \<Rightarrow> chat_request \<Rightarrow> world \<Rightarrow> (exn + string) \<times> world" where
  "chat_content e req w =
     (bind_exn (chat_completion e req) first_content, w\<lparr>chat_log := chat_log w @ [req]\<rparr>)"

definition py_json_loads :: "env \<Rightarrow> string \<Rightarrow> exn + json" where
  "py_json_loads e s = (case json_loads e s of None \<Rightarrow> Inl JSONDecodeError | Some v \<Rightarrow> Inr v)"

text \<open>\<^verbatim>\<open>not meeting_date\<close> for an optional string.\<close>

definition not_given :: "string option \<Rightarrow> bool" where
  "not_given s = (case s of None \<Rightarrow> True | Some t \<Rightarrow> t = [])"

subsection \<open>Extraction (\<^verbatim>\<open>process_transcript_with_ai\<close>, \<^verbatim>\<open>simple_ai_extraction\<close>)\<close>

definition primary_prompt :: "string \<Rightarrow> string" where
  \<open>primary_prompt transcript =
     ''\<newline>'' @
     ''        Analyze this meeting transcript and create structured meeting minutes. \<newline>'' @
     ''        Extract the following information and format it as JSON:\<newline>'' @
     ''        \<newline>'' @
     ''        Analyze this engineering team standup transcript.\<newline>'' @
     ''        Focus on:\<newline>'' @
     ''        - Technical tasks and implementations\<newline>'' @
     ''        - Blockers and dependencies\<newline>'' @
     ''        - Testing and deployment status\<newline>'' @
     ''        - Infrastructure decisions\<newline>'' @
     ''        Team members: Ranjeet, Hieu, Varshith, Swati\<newline>'' @
     ''        Projects: AI meeting pipeline, 5-FU clearance model, Kubernetes deployment\<newline>'' @
     ''        Extract updates, action items, and technical decisions.\<newline>'' @
     ''        \<newline>'' @
     ''        Transcript: '' @ transcript @ ''\<newline>'' @
     ''        \<newline>'' @
     ''        Return ONLY valid JSON, no additional text.\<newline>'' @
     ''        ''\<close>

definition primary_request :: "string \<Rightarrow> chat_request" where
  "primary_request transcript =
     \<lparr>model = ''gpt-4'',
      messages =
        [(''system'',
          ''You are an expert at analyzing meeting transcripts and creating clear, concise meeting minutes. Always return valid JSON.''),
         (''user'', primary_prompt transcript)],
      temperature = 3 / 10,
      max_tokens = 2000\<rparr>"

definition simple_prompt :: "string \<Rightarrow> string" where
  \<open>simple_prompt transcript =
     ''\<newline>'' @
     ''        Create a simple meeting summary from this transcript:\<newline>'' @
     ''        '' @ take 3000 transcript @ ''  # Limit context for simpler processing\<newline>'' @
     ''        \<newline>'' @
     ''        Format as JSON with: attendees (list), summary (string), action_items (list), blockers (list)\<newline>'' @
     ''        ''\<close>

definition simple_request :: "string \<Rightarrow> chat_request" where
  "simple_request transcript =
     \<lparr>model = ''gpt-3.5-turbo'',
      messages =
        [(''system'', ''Extract meeting information and return as JSON.''),
         (''user'', simple_prompt transcript)],
      temperature = 5 / 10,
      max_tokens = 1000\<rparr>"

text \<open>The record of lines 223 to 228.\<close>

definition safe_default_record :: json where
  "safe_default_record =
     JObj [(''attendees'', JArr [JStr ''Unable to extract attendees'']),
           (''summary'', JStr ''Meeting transcript processed but extraction failed.''),
           (''action_items'', JArr []),
           (''blockers'', JArr [])]"

text \<open>
  The body of the \<^verbatim>\<open>try\<close> of \<^verbatim>\<open>simple_ai_extraction\<close>, lines 210 to 220: the value
  it returns or the exception it raises.
\<close>

definition simple_attempt :: "env \<Rightarrow> string \<Rightarrow> world \<Rightarrow> (exn + json) \<times> world" where
  "simple_attempt e transcript =
     bind_io (chat_content e (simple_request transcript)) (\<lambda>content.
     pure_io (py_json_loads e content))"

text \<open>The bare \<^verbatim>\<open>except:\<close> of line 221 catches every exception.\<close>

definition simple_ai_extraction :: "env \<Rightarrow> string \<Rightarrow> world \<Rightarrow> (exn + json) \<times> world" where
  "simple_ai_extraction e transcript w =
     (case simple_attempt e transcript w of
        (Inr meeting_data, w') \<Rightarrow> (Inr meeting_data, w')
      | (Inl _, w') \<Rightarrow> (Inr safe_default_record, w'))"

text \<open>The body of the \<^verbatim>\<open>try\<close> of \<^verbatim>\<open>process_transcript_with_ai\<close>, lines 175 to 190.\<close>

definition primary_attempt :: "env \<Rightarrow> string \<Rightarrow> world \<Rightarrow> (exn + json) \<times> world" where
  "primary_attempt e transcript =
     bind_io (chat_content e (primary_request transcript)) (\<lambda>ai_response.
     pure_io (py_json_loads e ai_response))"

text \<open>
  \<^verbatim>\<open>process_transcript_with_ai\<close>, lines 148 to 198. The date it computes at line 152
  is not used afterwards; the clock is read all the same. The handler of
  \<^verbatim>\<open>json.JSONDecodeError\<close> calls the simplified tier; the handler of \<^verbatim>\<open>Exception\<close>
  raises again, and an exception that neither handler catches propagates as it is.
\<close>

definition process_transcript_with_ai ::
  "env \<Rightarrow> string \<Rightarrow> string option \<Rightarrow> world \<Rightarrow> (exn + json) \<times> world" where
  "process_transcript_with_ai e transcript meeting_date w =
     (let w1 = (if not_given meeting_date then snd (datetime_now e w) else w) in
      case primary_attempt e transcript w1 of
        (Inr meeting_data, w2) \<Rightarrow> (Inr meeting_data, w2)
      | (Inl JSONDecodeError, w2) \<Rightarrow> simple_ai_extraction e transcript w2
      | (Inl x, w2) \<Rightarrow> (Inl x, w2))"

subsection \<open>Suggestions (\<^verbatim>\<open>generate_improvement_suggestions\<close>)\<close>

text \<open>The prompt, lines 336 to 343, is built before the \<^verbatim>\<open>try\<close>.\<close>

definition suggestion_text :: "nat \<Rightarrow> nat \<Rightarrow> nat \<Rightarrow> string" where
  \<open>suggestion_text n_action_items n_blockers n_attendees =
     ''\<newline>'' @
     ''        Based on these meeting minutes, suggest 2-3 specific improvements for future meetings:\<newline>'' @
     ''        - Number of action items: '' @ str_nat n_action_items @ ''\<newline>'' @
     ''        - Number of blockers: '' @ str_nat n_blockers @ ''\<newline>'' @
     ''        - Attendees: '' @ str_nat n_attendees @ ''\<newline>'' @
     ''        \<newline>'' @
     ''        Provide brief, actionable suggestions.\<newline>'' @
     ''        ''\<close>

definition field_len :: "json \<Rightarrow> string \<Rightarrow> exn + nat" where
  "field_len meeting_data k = bind_exn (py_get meeting_data k (JArr [])) py_len"

definition suggestion_prompt :: "json \<Rightarrow> exn + string" where
  "suggestion_prompt meeting_data =
     bind_exn (field_len meeting_data ''action_items'') (\<lambda>n_action_items.
     bind_exn (field_len meeting_data ''blockers'') (\<lambda>n_blockers.
     bind_exn (field_len meeting_data ''attendees'') (\<lambda>n_attendees.
     Inr (suggestion_text n_action_items n_blockers n_attendees))))"

definition suggestion_request :: "string \<Rightarrow> chat_request" where
  "suggestion_request prompt =
     \<lparr>model = ''gpt-3.5-turbo'',
      messages =
        [(''system'', ''You are a meeting efficiency expert.''),
         (''user'', prompt)],
      temperature = 7 / 10,
      max_tokens = 200\<rparr>"

text \<open>Lines 345 to 358: the bare \<^verbatim>\<open>except:\<close> returns the empty string.\<close>

definition generate_improvement_suggestions ::
  "env \<Rightarrow> json \<Rightarrow> world \<Rightarrow> (exn + string) \<times> world" where
  "generate_improvement_suggestions e meeting_data =
     bind_io (pure_io (suggestion_prompt meeting_data)) (\<lambda>prompt w.
       case chat_content e (suggestion_request prompt) w of
         (Inr content, w') \<Rightarrow> (Inr content, w')
       | (Inl _, w') \<Rightarrow> (Inr [], w'))"

subsection \<open>The publisher (\<^verbatim>\<open>ConfluencePublisher\<close>)\<close>

record ConfluenceConfig =
  base_url :: string
  username :: string
  api_token :: string
  space_key :: string
  parent_page_id :: "string option"

record ConfluencePublisher =
  pub_config :: ConfluenceConfig
  pub_auth :: "string \<times> string"
  pub_base_url :: string

text \<open>\<^verbatim>\<open>s.rstrip('/')\<close>.\<close>

definition rstrip_slash :: "string \<Rightarrow> string" where
  "rstrip_slash s = rev (dropWhile (\<lambda>c. c = CHR ''/'') (rev s))"

definition new_publisher :: "ConfluenceConfig \<Rightarrow> ConfluencePublisher" where
  "new_publisher cfg =
     \<lparr>pub_config = cfg,
      pub_auth = (username cfg, api_token cfg),
      pub_base_url = rstrip_slash (base_url cfg)\<rparr>"

definition format_for_confluence :: "string \<Rightarrow> string" where
  \<open>format_for_confluence html_content =
     ''\<newline>'' @
     ''        <ac:structured-macro ac:name="info" ac:schema-version="1">\<newline>'' @
     ''            <ac:parameter ac:name="title">AI-Generated Meeting Minutes</ac:parameter>\<newline>'' @
     ''            <ac:rich-text-body>\<newline>'' @
     ''                <p>This page was automatically generated from a Teams meeting transcript using AI.</p>\<newline>'' @
     ''            </ac:rich-text-body>\<newline>'' @
     ''        </ac:structured-macro>\<newline>'' @
     ''        '' @ html_content @ ''\<newline>'' @
     ''        ''\<close>

definition storage_body :: "string \<Rightarrow> json" where
  "storage_body confluence_content =
     JObj [(''storage'',
            JObj [(''value'', JStr confluence_content), (''representation'', JStr ''storage'')])]"

text \<open>\<^verbatim>\<open>a or b\<close> on optional strings, and the truth value of one.\<close>

definition truthy_opt :: "string option \<Rightarrow> bool" where
  "truthy_opt s = (case s of None \<Rightarrow> False | Some t \<Rightarrow> t \<noteq> [])"

definition py_or :: "string option \<Rightarrow> string option \<Rightarrow> string option" where
  "py_or a b = (if truthy_opt a then a else b)"

text \<open>The payload of \<^verbatim>\<open>create_page\<close>, lines 49 to 69.\<close>

definition create_payload :: "ConfluencePublisher \<Rightarrow> string \<Rightarrow> string \<Rightarrow> string option \<Rightarrow> json" where
  "create_payload self title content parent_id =
     (let confluence_content = format_for_confluence content;
          payload =
            [(''type'', JStr ''page''),
             (''title'', JStr title),
             (''space'', JObj [(''key'', JStr (space_key (pub_config self)))]),
             (''body'', storage_body confluence_content),
             (''metadata'',
              JObj [(''labels'',
                     JArr [JObj [(''name'', JStr ''meeting-minutes'')],
                           JObj [(''name'', JStr ''standup'')],
                           JObj [(''name'', JStr ''ai-generated'')]])])]
      in case py_or parent_id (parent_page_id (pub_config self)) of
           None \<Rightarrow> JObj payload
         | Some p \<Rightarrow>
             (if p \<noteq> [] then JObj (payload @ [(''ancestors'', JArr [JObj [(''id'', JStr p)]])])
              else JObj payload))"

definition create_request :: "ConfluencePublisher \<Rightarrow> string \<Rightarrow> string \<Rightarrow> string option \<Rightarrow> http_request" where
  "create_request self title content parent_id =
     \<lparr>req_verb = POST,
      req_url = pub_base_url self @ ''/rest/api/content'',
      req_params = [],
      req_json = Some (create_payload self title content parent_id),
      req_auth = pub_auth self\<rparr>"

text \<open>
  What both \<^verbatim>\<open>create_page\<close> and \<^verbatim>\<open>update_page\<close> do with the response, lines 73 to 79
  and 101 to 107. The log message of the success branch reads
  \<^verbatim>\<open>page_data['_links']['webui']\<close>, which raises when the answer has no such entry.
\<close>

definition page_result :: "http_response \<Rightarrow> exn + json" where
  "page_result response =
     (if status_code response = 200 then
        bind_exn (body_json response) (\<lambda>page_data.
        bind_exn (py_item page_data ''_links'') (\<lambda>links.
        bind_exn (py_item links ''webui'') (\<lambda>_.
        Inr page_data)))
      else Inl (Exception (''Confluence API error: '' @ str_nat (status_code response))))"

definition send :: "(http_request \<Rightarrow> exn + http_response) \<Rightarrow> http_request \<Rightarrow> world \<Rightarrow>
    (exn + http_response) \<times> world" where
  "send f request w = (f request, w\<lparr>http_log := http_log w @ [request]\<rparr>)"

definition create_page ::
  "env \<Rightarrow> ConfluencePublisher \<Rightarrow> string \<Rightarrow> string \<Rightarrow> string option \<Rightarrow> world \<Rightarrow> (exn + json) \<times> world" where
  "create_page e self title content parent_id =
     bind_io (send (requests_post e) (create_request self title content parent_id)) (\<lambda>response.
     pure_io (page_result response))"

text \<open>\<^verbatim>\<open>version + 1\<close>: defined on the integers, and on the truth values, which are integers
  in Python.\<close>

definition py_add1 :: "json \<Rightarrow> exn + json" where
  "py_add1 v =
     (case v of
        JInt n \<Rightarrow> Inr (JInt (n + 1))
      | JBool b \<Rightarrow> Inr (JInt ((if b then 1 else 0) + 1))
      | _ \<Rightarrow> Inl TypeError)"

text \<open>The payload of \<^verbatim>\<open>update_page\<close>, lines 87 to 97, given the number \<open>version + 1\<close>.\<close>

definition update_payload :: "string \<Rightarrow> string \<Rightarrow> json \<Rightarrow> json" where
  "update_payload title content number =
     JObj [(''version'', JObj [(''number'', number)]),
           (''title'', JStr title),
           (''type'', JStr ''page''),
           (''body'', storage_body (format_for_confluence content))]"

definition update_request ::
  "env \<Rightarrow> ConfluencePublisher \<Rightarrow> json \<Rightarrow> string \<Rightarrow> string \<Rightarrow> json \<Rightarrow> http_request" where
  "update_request e self page_id title content number =
     \<lparr>req_verb = PUT,
      req_url = pub_base_url self @ ''/rest/api/content/'' @ fmt (py_repr e) page_id,
      req_params = [],
      req_json = Some (update_payload title content number),
      req_auth = pub_auth self\<rparr>"

definition update_page ::
  "env \<Rightarrow> ConfluencePublisher \<Rightarrow> json \<Rightarrow> string \<Rightarrow> string \<Rightarrow> json \<Rightarrow> world \<Rightarrow> (exn + json) \<times> world" where
  "update_page e self page_id title content version =
     bind_io (pure_io (py_add1 version)) (\<lambda>number.
     bind_io (send (requests_put e) (update_request e self page_id title content number)) (\<lambda>response.
     pure_io (page_result response)))"

definition find_request :: "ConfluencePublisher \<Rightarrow> string \<Rightarrow> http_request" where
  "find_request self title =
     \<lparr>req_verb = GET,
      req_url = pub_base_url self @ ''/rest/api/content'',
      req_params =
        [(''spaceKey'', space_key (pub_config self)), (''title'', title), (''expand'', ''version'')],
      req_json = None,
      req_auth = pub_auth self\<rparr>"

text \<open>Lines 120 to 124 of \<^verbatim>\<open>find_page_by_title\<close>: \<open>None\<close> is Python's \<^verbatim>\<open>None\<close>.\<close>

definition found_page :: "http_response \<Rightarrow> exn + json option" where
  "found_page response =
     (if status_code response = 200 then
        bind_exn (body_json response) (\<lambda>data.
        bind_exn (py_item data ''results'') (\<lambda>results.
        if py_truthy results then bind_exn (py_first results) (\<lambda>page. Inr (Some page))
        else Inr None))
      else Inr None)"

definition find_page_by_title ::
  "env \<Rightarrow> ConfluencePublisher \<Rightarrow> string \<Rightarrow> world \<Rightarrow> (exn + json option) \<times> world" where
  "find_page_by_title e self title =
     bind_io (send (requests_get e) (find_request self title)) (\<lambda>response.
     pure_io (found_page response))"

subsection \<open>The pipeline (\<^verbatim>\<open>process_and_publish\<close>, \<^verbatim>\<open>process_file\<close>)\<close>

record AIMinutesGenerator =
  confluence :: "ConfluencePublisher option"

text \<open>The dictionary that \<^verbatim>\<open>process_and_publish\<close> returns and \<^verbatim>\<open>process_file\<close>
  extends; an absent key is \<open>None\<close>.\<close>

record run_result =
  r_meeting_data :: json
  r_html_content :: string
  r_confluence_url :: "string option"
  r_page_id :: "json option"
  r_local_file :: "string option"
  r_json_file :: "string option"

text \<open>Lines 363 and 364: the date given, or today's.\<close>

definition resolve_date :: "env \<Rightarrow> string option \<Rightarrow> world \<Rightarrow> (exn + string) \<times> world" where
  "resolve_date e meeting_date =
     (case meeting_date of
        None \<Rightarrow> bind_io (datetime_now e) (\<lambda>t. pure_io (Inr (strftime_date t)))
      | Some d \<Rightarrow>
          (if d = [] then bind_io (datetime_now e) (\<lambda>t. pure_io (Inr (strftime_date t)))
           else pure_io (Inr d)))"

text \<open>The call of line 371: the renderer reads the clock once.\<close>

definition render_minutes :: "env \<Rightarrow> json \<Rightarrow> string \<Rightarrow> world \<Rightarrow> (exn + string) \<times> world" where
  "render_minutes e meeting_data meeting_date =
     bind_io (datetime_now e) (\<lambda>now.
     pure_io (format_minutes_as_html (py_repr e) meeting_data meeting_date now))"

text \<open>Lines 375 to 383.\<close>

definition suggestion_block :: "string \<Rightarrow> string" where
  \<open>suggestion_block suggestions =
     ''\<newline>'' @
     ''            <h2>AI Suggestions for Improvement</h2>\<newline>'' @
     ''            <ac:structured-macro ac:name="note" ac:schema-version="1">\<newline>'' @
     ''                <ac:rich-text-body>\<newline>'' @
     ''                    <p>'' @ suggestions @ ''</p>\<newline>'' @
     ''                </ac:rich-text-body>\<newline>'' @
     ''            </ac:structured-macro>\<newline>'' @
     ''            ''\<close>

definition with_suggestions :: "string \<Rightarrow> string \<Rightarrow> string" where
  "with_suggestions html_content suggestions =
     (if suggestions \<noteq> [] then html_content @ suggestion_block suggestions else html_content)"

definition page_title :: "string \<Rightarrow> string" where
  "page_title meeting_date = ''Stand-up Minutes - '' @ meeting_date"

text \<open>Lines 392 to 400: update the page that was found, or create one.\<close>

definition create_or_update ::
  "env \<Rightarrow> ConfluencePublisher \<Rightarrow> string \<Rightarrow> string \<Rightarrow> json option \<Rightarrow> world \<Rightarrow> (exn + json) \<times> world" where
  "create_or_update e self title html_content existing_page =
     (case existing_page of
        None \<Rightarrow> create_page e self title html_content None
      | Some page \<Rightarrow>
          (if py_truthy page then
             bind_io (pure_io (py_item page ''id'')) (\<lambda>page_id.
             bind_io (pure_io (bind_exn (py_item page ''version'') (\<lambda>v. py_item v ''number''))) (\<lambda>number.
             update_page e self page_id title html_content number))
           else create_page e self title html_content None))"

text \<open>Lines 387 to 407, the branch \<^verbatim>\<open>if self.confluence:\<close>.\<close>

definition publish ::
  "env \<Rightarrow> ConfluencePublisher \<Rightarrow> json \<Rightarrow> string \<Rightarrow> string \<Rightarrow> world \<Rightarrow> (exn + run_result) \<times> world" where
  "publish e self meeting_data meeting_date html_content =
     (let title = page_title meeting_date in
      bind_io (find_page_by_title e self title) (\<lambda>existing_page.
      bind_io (create_or_update e self title html_content existing_page) (\<lambda>page_data.
      pure_io
        (bind_exn (py_item page_data ''_links'') (\<lambda>links.
         bind_exn (py_item links ''webui'') (\<lambda>webui.
         bind_exn (py_item page_data ''id'') (\<lambda>page_id.
         Inr \<lparr>r_meeting_data = meeting_data,
              r_html_content = html_content,
              r_confluence_url = Some (pub_base_url self @ fmt (py_repr e) webui),
              r_page_id = Some page_id,
              r_local_file = None,
              r_json_file = None\<rparr>)))))))"

definition process_and_publish ::
  "env \<Rightarrow> AIMinutesGenerator \<Rightarrow> string \<Rightarrow> string option \<Rightarrow> world \<Rightarrow> (exn + run_result) \<times> world" where
  "process_and_publish e self transcript meeting_date =
     bind_io (resolve_date e meeting_date) (\<lambda>meeting_date.
     bind_io (process_transcript_with_ai e transcript (Some meeting_date)) (\<lambda>meeting_data.
     bind_io (render_minutes e meeting_data meeting_date) (\<lambda>html_content.
     bind_io (generate_improvement_suggestions e meeting_data) (\<lambda>suggestions.
     (let html_content = with_suggestions html_content suggestions in
      case confluence self of
        Some publisher \<Rightarrow> publish e publisher meeting_data meeting_date html_content
      | None \<Rightarrow>
          pure_io
            (Inr \<lparr>r_meeting_data = meeting_data,
                  r_html_content = html_content,
                  r_confluence_url = None,
                  r_page_id = None,
                  r_local_file = None,
                  r_json_file = None\<rparr>))))))"

text \<open>
  Paths are lists of components. \<^verbatim>\<open>Path.suffix\<close> and \<^verbatim>\<open>Path.stem\<close> split the last
  component at its last dot, unless that dot is its first or its last character.
\<close>

definition path_name :: "path \<Rightarrow> string" where
  "path_name p = (if p = [] then [] else last p)"

definition dot_index :: "string \<Rightarrow> nat option" where
  "dot_index name =
     (if CHR ''.'' \<in> set name then
        (let i = length name - length (takeWhile (\<lambda>c. c \<noteq> CHR ''.'') (rev name)) - 1
         in if 0 < i \<and> i < length name - 1 then Some i else None)
      else None)"

definition path_suffix :: "path \<Rightarrow> string" where
  "path_suffix p = (case dot_index (path_name p) of None \<Rightarrow> [] | Some i \<Rightarrow> drop i (path_name p))"

definition path_stem :: "path \<Rightarrow> string" where
  "path_stem p =
     (case dot_index (path_name p) of None \<Rightarrow> path_name p | Some i \<Rightarrow> take i (path_name p))"

definition path_str :: "path \<Rightarrow> string" where
  "path_str p = join ''/'' p"

text \<open>\<^verbatim>\<open>str.lower\<close> on the ASCII letters.\<close>

definition lower_char :: "char \<Rightarrow> char" where
  "lower_char c =
     (case map_of (zip ''ABCDEFGHIJKLMNOPQRSTUVWXYZ'' ''abcdefghijklmnopqrstuvwxyz'') c of
        Some l \<Rightarrow> l
      | None \<Rightarrow> c)"

definition lower :: "string \<Rightarrow> string" where
  "lower s = map lower_char s"

text \<open>Lines 418 to 428: the text of the input file.\<close>

definition read_input :: "env \<Rightarrow> path \<Rightarrow> exn + string" where
  "read_input e input_file =
     (if lower (path_suffix input_file) = ''.docx'' then
        bind_exn (docx_paragraphs e input_file) (\<lambda>paragraphs. Inr (join ''\<newline>'' paragraphs))
      else read_text e input_file)"

text \<open>\<^verbatim>\<open>output_dir.mkdir(parents=True)\<close> and \<^verbatim>\<open>path.write_text(content)\<close>.\<close>

definition mkdir_parents :: "path \<Rightarrow> world \<Rightarrow> world" where
  "mkdir_parents d w = w\<lparr>dirs := dirs w \<union> set (prefixes d)\<rparr>"

definition write_text :: "path \<Rightarrow> string \<Rightarrow> world \<Rightarrow> world" where
  "write_text p content w = w\<lparr>files := (files w)(p \<mapsto> content)\<rparr>"

text \<open>Lines 434 to 448: the local copies. Each file name reads the clock.\<close>

definition save_local :: "env \<Rightarrow> path \<Rightarrow> path \<Rightarrow> run_result \<Rightarrow> world \<Rightarrow> (exn + run_result) \<times> world" where
  "save_local e input_file output_dir result w =
     (let w1 = (if output_dir \<notin> dirs w then mkdir_parents output_dir w else w);
          t1 = clock e (ticks w1);
          w2 = w1\<lparr>ticks := Suc (ticks w1)\<rparr>;
          output_file =
            output_dir @ [''minutes_'' @ path_stem input_file @ ''_'' @ strftime_compact t1 @ ''.html''];
          w3 = write_text output_file (r_html_content result) w2;
          t2 = clock e (ticks w3);
          w4 = w3\<lparr>ticks := Suc (ticks w3)\<rparr>;
          json_file =
            output_dir @ [''minutes_'' @ path_stem input_file @ ''_'' @ strftime_compact t2 @ ''.json''];
          w5 = write_text json_file (json_dumps e (r_meeting_data result)) w4
      in (Inr (result\<lparr>r_local_file := Some (path_str output_file),
                       r_json_file := Some (path_str json_file)\<rparr>), w5))"

text \<open>\<^verbatim>\<open>process_file\<close>, lines 414 to 450.\<close>

definition process_file ::
  "env \<Rightarrow> AIMinutesGenerator \<Rightarrow> path \<Rightarrow> path option \<Rightarrow> world \<Rightarrow> (exn + run_result) \<times> world" where
  "process_file e self input_file output_dir =
     bind_io (pure_io (read_input e input_file)) (\<lambda>text_read.
     bind_io (process_and_publish e self text_read None) (\<lambda>result.
     case output_dir of
       Some d \<Rightarrow> save_local e input_file d result
     | None \<Rightarrow> pure_io (Inr result)))"

subsection \<open>The vocabulary of the specification\<close>

text \<open>
  A meeting record, as the data model of the specification has it: a dictionary in which
  each of the seven fields is absent or holds a value of its type. The attendees,
  blockers, decisions and key discussions are lists of strings, the summary is a string,
  and the individual updates and the action items are lists of dictionaries whose four
  fields are absent or strings.
\<close>

definition is_str :: "json \<Rightarrow> bool" where
  "is_str x = (case x of JStr _ \<Rightarrow> True | _ \<Rightarrow> False)"

definition str_list :: "json \<Rightarrow> bool" where
  "str_list x = (case x of JArr xs \<Rightarrow> list_all is_str xs | _ \<Rightarrow> False)"

definition optional :: "(string \<times> json) list \<Rightarrow> string \<Rightarrow> (json \<Rightarrow> bool) \<Rightarrow> bool" where
  "optional kvs k P = (case map_of kvs k of None \<Rightarrow> True | Some v \<Rightarrow> P v)"

definition flat_object :: "string list \<Rightarrow> json \<Rightarrow> bool" where
  "flat_object ks x = (case x of JObj f \<Rightarrow> list_all (\<lambda>k. optional f k is_str) ks | _ \<Rightarrow> False)"

definition object_list :: "string list \<Rightarrow> json \<Rightarrow> bool" where
  "object_list ks x = (case x of JArr xs \<Rightarrow> list_all (flat_object ks) xs | _ \<Rightarrow> False)"

definition meeting_record :: "json \<Rightarrow> bool" where
  "meeting_record m =
     (case m of
        JObj kvs \<Rightarrow>
          optional kvs ''attendees'' str_list \<and>
          optional kvs ''summary'' is_str \<and>
          optional kvs ''individual_updates''
            (object_list [''name'', ''yesterday'', ''today'', ''blockers'']) \<and>
          optional kvs ''action_items''
            (object_list [''action'', ''assignee'', ''due_date'', ''priority'']) \<and>
          optional kvs ''blockers'' str_list \<and>
          optional kvs ''decisions'' str_list \<and>
          optional kvs ''key_discussions'' str_list
      | _ \<Rightarrow> False)"

text \<open>The sequence a record holds under a key: empty when the key is absent.\<close>

definition field_seq :: "json \<Rightarrow> string \<Rightarrow> json list" where
  "field_seq m k =
     (case m of
        JObj kvs \<Rightarrow> (case map_of kvs k of Some (JArr xs) \<Rightarrow> xs | _ \<Rightarrow> [])
      | _ \<Rightarrow> [])"

text \<open>The text of a block that was rendered without an exception.\<close>

definition text_of :: "exn + string \<Rightarrow> string" where
  "text_of r = (case r of Inr s \<Rightarrow> s | Inl _ \<Rightarrow> [])"

text \<open>
  The sections of the document: a section of list items under a heading, and the table
  of the action items. A section of no items is the empty text.
\<close>

definition li_section :: "(json \<Rightarrow> string) \<Rightarrow> string \<Rightarrow> json list \<Rightarrow> string" where
  "li_section repr heading items =
     (if items = [] then [] else heading @ concat (map (li_text repr) items) @ ''</ul>'')"

definition action_items_section :: "(json \<Rightarrow> string) \<Rightarrow> json list \<Rightarrow> string" where
  "action_items_section repr items =
     (if items = [] then []
      else action_items_heading @ concat (map (\<lambda>item. text_of (action_row repr item)) items)
             @ ''</table>'')"

definition updates_section :: "(json \<Rightarrow> string) \<Rightarrow> json list \<Rightarrow> string" where
  "updates_section repr updates = concat (map (\<lambda>update. text_of (update_block repr update)) updates)"




definition map_items :: "(json \<Rightarrow> json) \<Rightarrow> json \<Rightarrow> json" where
  "map_items f x = (case x of JArr xs \<Rightarrow> JArr (map f xs) | _ \<Rightarrow> x)"



text \<open>Whether a key occurs in a JSON value, at any depth.\<close>

fun has_key :: "string \<Rightarrow> json \<Rightarrow> bool" where
  "has_key k (JArr xs) = list_ex (has_key k) xs"
| "has_key k (JObj kvs) = list_ex (\<lambda>kv. fst kv = k \<or> has_key k (snd kv)) kvs"
| "has_key k _ = False"

text \<open>The requests a call added to the log of the world.\<close>

definition sent :: "world \<Rightarrow> world \<Rightarrow> http_request list" where
  "sent w w' = drop (length (http_log w)) (http_log w')"

definition asked :: "world \<Rightarrow> world \<Rightarrow> chat_request list" where
  "asked w w' = drop (length (chat_log w)) (chat_log w')"

text \<open>The local files and directories of a world.\<close>

definition local_state :: "world \<Rightarrow> (path \<rightharpoonup> string) \<times> path set" where
  "local_state w = (files w, dirs w)"

subsection \<open>Concrete runs\<close>

text \<open>
  The inputs of the worked examples. No example formats a list or a dictionary, so the
  text that stands for their \<^verbatim>\<open>repr\<close> is never printed.
\<close>

definition example_repr :: "json \<Rightarrow> string" where
  "example_repr x = ''[...]''"

definition monday :: datetime where
  "monday = \<lparr>year = 2024, month = 1, day = 15, hour = 9, minute = 30, second = 5, microsecond = 0\<rparr>"

definition monday_later :: datetime where
  "monday_later =
     \<lparr>year = 2024, month = 1, day = 15, hour = 9, minute = 30, second = 5, microsecond = 250000\<rparr>"

text \<open>Three attendees, two action items, no blockers.\<close>

definition standup_record :: json where
  "standup_record =
     JObj [(''attendees'', JArr [JStr ''Ranjeet'', JStr ''Hieu'', JStr ''Swati'']),
           (''summary'', JStr ''The pipeline is ready for testing.''),
           (''action_items'',
            JArr [JObj [(''action'', JStr ''Deploy to staging''), (''assignee'', JStr ''Hieu'')],
                  JObj [(''action'', JStr ''Write the tests'')]]),
           (''blockers'', JArr [])]"

definition standup_html :: string where
  "standup_html =
     head_text ''2024-01-15'' ''Ranjeet, Hieu, Swati'' ''The pipeline is ready for testing.''
     @ action_items_heading
     @ row_text ''Deploy to staging'' ''Hieu'' ''TBD'' ''Medium''
     @ row_text ''Write the tests'' ''TBD'' ''TBD'' ''Medium''
     @ ''</table>''
     @ foot_text 3 2 0 0 ''2024-01-15 09:30:05''"

text \<open>A record with every field absent, and one whose list of attendees is empty.\<close>

definition empty_record :: json where
  "empty_record = JObj []"

definition no_attendees_record :: json where
  "no_attendees_record = JObj [(''attendees'', JArr [])]"

definition no_attendees_html :: string where
  "no_attendees_html =
     head_text ''2024-01-15'' [] ''No summary available.''
     @ foot_text 0 0 0 0 ''2024-01-15 09:30:05''"




text \<open>
  A run in which every collaborator answers: the completion service returns the JSON text
  of the stand-up record, the store already has the page of the day at version 3, and
  the update is accepted.
\<close>

definition transcript_text :: string where
  "transcript_text = ''Ranjeet: the pipeline is ready. Hieu: I will deploy it to staging.''"

definition standup_answer :: string where
  \<open>standup_answer =
     ''{"attendees": ["Ranjeet", "Hieu", "Swati"], '' @
     ''"summary": "The pipeline is ready for testing.", '' @
     ''"action_items": [{"action": "Deploy to staging", "assignee": "Hieu"}, '' @
     ''{"action": "Write the tests"}], "blockers": []}''\<close>

definition page_v3 :: json where
  "page_v3 =
     JObj [(''id'', JStr ''98765''),
           (''title'', JStr ''Stand-up Minutes - 2024-01-15''),
           (''version'', JObj [(''number'', JInt 3)])]"

definition page_answer :: json where
  "page_answer =
     JObj [(''id'', JStr ''98765''),
           (''_links'', JObj [(''webui'', JStr ''/spaces/ENG/pages/98765'')])]"

definition ok_response :: "json \<Rightarrow> http_response" where
  "ok_response v = \<lparr>status_code = 200, body_text = [], body_json = Inr v\<rparr>"

definition error_response :: "nat \<Rightarrow> http_response" where
  "error_response code = \<lparr>status_code = code, body_text = [], body_json = Inl JSONDecodeError\<rparr>"

definition office_chat :: "chat_request \<Rightarrow> exn + string list" where
  "office_chat req =
     (if model req = ''gpt-4'' then Inr [standup_answer]
      else Inr [''Keep the stand-up under ten minutes.''])"

definition office_loads :: "string \<Rightarrow> json option" where
  "office_loads s = (if s = standup_answer then Some standup_record else None)"

definition office_env :: env where
  "office_env =
     \<lparr>chat_completion = office_chat,
      json_loads = office_loads,
      json_dumps = example_repr,
      py_repr = example_repr,
      requests_get = (\<lambda>req. Inr (ok_response (JObj [(''results'', JArr [page_v3])]))),
      requests_post = (\<lambda>req. Inr (ok_response page_answer)),
      requests_put = (\<lambda>req. Inr (ok_response page_answer)),
      clock = (\<lambda>n. monday),
      read_text = (\<lambda>p. Inr transcript_text),
      docx_paragraphs = (\<lambda>p. Inr [transcript_text])\<rparr>"

text \<open>The document of that run: the minutes and the block of the suggestions.\<close>

definition standup_page :: string where
  "standup_page = standup_html @ suggestion_block ''Keep the stand-up under ten minutes.''"

text \<open>The world of that run when the publisher is called: the clock was read twice (for
  the date and by the renderer) and two completion requests were sent.\<close>

definition before_publish :: world where
  "before_publish =
     \<lparr>chat_log = [primary_request transcript_text, suggestion_request (suggestion_text 2 0 3)],
      http_log = [], ticks = 2, files = Map.empty, dirs = {}\<rparr>"

text \<open>The primary answer is prose, and the second call cannot reach the service.\<close>

definition garbled_chat :: "chat_request \<Rightarrow> exn + string list" where
  "garbled_chat req =
     (if model req = ''gpt-4'' then Inr [''Here are the minutes you asked for.'']
      else Inl (OtherError ''openai.error.APIConnectionError''))"

definition garbled_env :: env where
  "garbled_env = office_env\<lparr>chat_completion := garbled_chat\<rparr>"

text \<open>Every answer is prose; an answer has no choice to read; every answer is the JSON
  text of the stand-up record.\<close>

definition prose_env :: env where
  "prose_env = office_env\<lparr>chat_completion := (\<lambda>req. Inr [''Here are the minutes you asked for.''])\<rparr>"

definition silent_env :: env where
  "silent_env = office_env\<lparr>chat_completion := (\<lambda>req. Inr [])\<rparr>"

definition answering_env :: env where
  "answering_env = office_env\<lparr>chat_completion := (\<lambda>req. Inr [standup_answer])\<rparr>"

text \<open>No call reaches the completion service.\<close>

definition timeout_chat :: "chat_request \<Rightarrow> exn + string list" where
  "timeout_chat req = Inl (OtherError ''openai.error.Timeout'')"

definition timeout_env :: env where
  "timeout_env = office_env\<lparr>chat_completion := timeout_chat\<rparr>"

text \<open>The extraction succeeds and the call for suggestions is refused.\<close>

definition quiet_chat :: "chat_request \<Rightarrow> exn + string list" where
  "quiet_chat req =
     (if model req = ''gpt-4'' then Inr [standup_answer]
      else Inl (OtherError ''openai.error.RateLimitError''))"

definition quiet_env :: env where
  "quiet_env = office_env\<lparr>chat_completion := quiet_chat\<rparr>"

text \<open>The store has no page of the day; it refuses the create; it refuses the update of
  the page of the day; the lookup fails.\<close>

definition new_page_env :: env where
  "new_page_env =
     office_env\<lparr>requests_get := (\<lambda>req. Inr (ok_response (JObj [(''results'', JArr [])])))\<rparr>"

definition refusing_env :: env where
  "refusing_env = new_page_env\<lparr>requests_post := (\<lambda>req. Inr (error_response 500))\<rparr>"

definition conflict_env :: env where
  "conflict_env = office_env\<lparr>requests_put := (\<lambda>req. Inr (error_response 409))\<rparr>"

definition not_found_env :: env where
  "not_found_env = office_env\<lparr>requests_get := (\<lambda>req. Inr (error_response 404))\<rparr>"

definition offline_env :: env where
  "offline_env =
     office_env\<lparr>requests_get := (\<lambda>req. Inl (OtherError ''requests.exceptions.ConnectionError''))\<rparr>"

definition odd_answer_env :: env where
  "odd_answer_env = office_env\<lparr>requests_get := (\<lambda>req. Inr (ok_response (JObj [])))\<rparr>"

definition example_config :: ConfluenceConfig where
  "example_config =
     \<lparr>base_url = ''https://wiki.example.com/'', username = ''minutes-bot'',
      api_token = ''token'', space_key = ''ENG'', parent_page_id = None\<rparr>"

definition example_publisher :: ConfluencePublisher where
  "example_publisher = new_publisher example_config"

definition publishing_generator :: AIMinutesGenerator where
  "publishing_generator = \<lparr>confluence = Some example_publisher\<rparr>"

definition local_generator :: AIMinutesGenerator where
  "local_generator = \<lparr>confluence = None\<rparr>"

definition fresh_world :: world where
  "fresh_world = \<lparr>chat_log = [], http_log = [], ticks = 0, files = Map.empty, dirs = {}\<rparr>"

section \<open>Properties\<close>

declare str_nat.simps [simp del]

subsection \<open>Python values\<close>

lemma bind_exn_Inl [simp]: "bind_exn (Inl x) f = Inl x"
  by (simp add: bind_exn_def)

lemma bind_exn_Inr [simp]: "bind_exn (Inr a) f = f a"
  by (simp add: bind_exn_def)

lemma py_get_obj: "py_get (JObj kvs) k d = Inr (case map_of kvs k of None \<Rightarrow> d | Some v \<Rightarrow> v)"
  by (simp add: py_get_def split: option.splits)

lemma foldl_append_concat: "foldl (\<lambda>h x. h @ g x) h0 xs = h0 @ concat (map g xs)"
  by (induction xs arbitrary: h0) simp_all

lemma append_blocks_ok:
  "list_all (\<lambda>x. \<exists>s. block x = Inr s) xs \<Longrightarrow>
   append_blocks block html xs = Inr (html @ concat (map (\<lambda>x. text_of (block x)) xs))"
  by (induction xs arbitrary: html) (auto simp: text_of_def)

lemma str_items_ok: "list_all is_str xs \<Longrightarrow> \<exists>ss. str_items xs = Inr ss"
  by (induction xs rule: str_items.induct) (auto simp: is_str_def)

lemma py_get_list_field:
  assumes "optional kvs k P" and "\<And>v. P v \<Longrightarrow> \<exists>xs. v = JArr xs"
  shows "py_get (JObj kvs) k (JArr []) = Inr (JArr (field_seq (JObj kvs) k))"
proof (cases "map_of kvs k")
  case None
  then show ?thesis by (simp add: py_get_obj field_seq_def)
next
  case (Some v)
  with assms(1) have "P v" by (simp add: optional_def)
  with assms(2) obtain xs where "v = JArr xs" by blast
  with Some show ?thesis by (simp add: py_get_obj field_seq_def)
qed

lemma str_list_arr: "str_list v \<Longrightarrow> \<exists>xs. v = JArr xs"
  by (cases v) (simp_all add: str_list_def)

lemma object_list_arr: "object_list ks v \<Longrightarrow> \<exists>xs. v = JArr xs"
  by (cases v) (simp_all add: object_list_def)

lemma flat_object_obj: "flat_object ks x \<Longrightarrow> \<exists>f. x = JObj f"
  by (cases x) (simp_all add: flat_object_def)

subsection \<open>The renderer on meeting records\<close>

lemma update_block_obj: "\<exists>s. update_block repr (JObj f) = Inr s"
  by (simp add: update_block_def py_get_obj)

lemma action_row_obj: "\<exists>s. action_row repr (JObj f) = Inr s"
  by (simp add: action_row_def py_get_obj)

lemma li_step_arr: "li_step repr heading html (JArr xs) = Inr (html @ li_section repr heading xs)"
  by (simp add: li_step_def py_truthy_def py_iter_def li_section_def foldl_append_concat)

lemma action_items_step_arr:
  assumes "list_all (\<lambda>x. \<exists>f. x = JObj f) xs"
  shows "action_items_step repr html (JArr xs) = Inr (html @ action_items_section repr xs)"
proof -
  have "list_all (\<lambda>x. \<exists>s. action_row repr x = Inr s) xs"
    using assms action_row_obj by (auto simp: list_all_iff)
  then show ?thesis
    by (simp add: action_items_step_def py_truthy_def py_iter_def action_items_section_def
        append_blocks_ok)
qed

lemma attendees_cell_ok:
  assumes "optional kvs ''attendees'' str_list"
  shows "\<exists>c. attendees_cell (JObj kvs) = Inr c"
proof (cases "map_of kvs ''attendees''")
  case None
  then show ?thesis
    by (simp add: attendees_cell_def py_get_obj py_join_def py_iter_def)
next
  case (Some v)
  with assms have "str_list v" by (simp add: optional_def)
  then obtain xs where v: "v = JArr xs" and "list_all is_str xs"
    by (cases v) (simp_all add: str_list_def)
  then obtain ss where "str_items xs = Inr ss" using str_items_ok by blast
  with Some v show ?thesis
    by (simp add: attendees_cell_def py_get_obj py_join_def py_iter_def)
qed

lemma minutes_head_ok:
  assumes "optional kvs ''attendees'' str_list"
  shows "\<exists>c. attendees_cell (JObj kvs) = Inr c \<and>
    minutes_head repr (JObj kvs) d =
      Inr (head_text d c
            (fmt repr (case map_of kvs ''summary'' of None \<Rightarrow> JStr ''No summary available.''
                       | Some v \<Rightarrow> v)))"
proof -
  from attendees_cell_ok [OF assms] obtain c where "attendees_cell (JObj kvs) = Inr c" ..
  then show ?thesis by (simp add: minutes_head_def py_get_obj)
qed

lemma object_list_items:
  assumes "optional kvs k (object_list ks)"
  shows "list_all (\<lambda>x. \<exists>f. x = JObj f) (field_seq (JObj kvs) k)"
proof (cases "map_of kvs k")
  case None
  then show ?thesis by (simp add: field_seq_def)
next
  case (Some v)
  with assms have "object_list ks v" by (simp add: optional_def)
  then obtain xs where v: "v = JArr xs" and "list_all (flat_object ks) xs"
    by (cases v) (simp_all add: object_list_def)
  then have "list_all (\<lambda>x. \<exists>f. x = JObj f) xs"
    using flat_object_obj by (auto simp: list_all_iff)
  with Some v show ?thesis by (simp add: field_seq_def)
qed

lemma minutes_foot_ok:
  assumes "optional kvs ''attendees'' str_list"
  shows "minutes_foot (JObj kvs) (JArr a) (JArr b) (JArr c) now =
         Inr (foot_text (length (field_seq (JObj kvs) ''attendees'')) (length a) (length b)
                (length c) (strftime_stamp now))"
  using py_get_list_field [OF assms str_list_arr]
  by (simp add: minutes_foot_def py_len_def)

lemma render_sections:
  assumes "meeting_record m"
  shows "format_minutes_as_html repr m d now =
         Inr (text_of (minutes_head repr m d)
              @ updates_section repr (field_seq m ''individual_updates'')
              @ li_section repr ''<h2>Blockers/Impediments</h2><ul>'' (field_seq m ''blockers'')
              @ action_items_section repr (field_seq m ''action_items'')
              @ li_section repr ''<h2>Decisions Made</h2><ul>'' (field_seq m ''decisions'')
              @ li_section repr ''<h2>Key Discussion Points</h2><ul>'' (field_seq m ''key_discussions'')
              @ foot_text (length (field_seq m ''attendees'')) (length (field_seq m ''action_items''))
                  (length (field_seq m ''blockers'')) (length (field_seq m ''decisions''))
                  (strftime_stamp now))"
proof -
  from assms obtain kvs where m: "m = JObj kvs"
    by (cases m) (simp_all add: meeting_record_def)
  from assms m have att: "optional kvs ''attendees'' str_list"
    and ups: "optional kvs ''individual_updates''
                (object_list [''name'', ''yesterday'', ''today'', ''blockers''])"
    and acts: "optional kvs ''action_items''
                (object_list [''action'', ''assignee'', ''due_date'', ''priority''])"
    and blk: "optional kvs ''blockers'' str_list"
    and dec: "optional kvs ''decisions'' str_list"
    and dis: "optional kvs ''key_discussions'' str_list"
    by (simp_all add: meeting_record_def)
  from minutes_head_ok [OF att] obtain h where h: "minutes_head repr (JObj kvs) d = Inr h"
    by blast
  have g1: "py_get (JObj kvs) ''individual_updates'' (JArr []) =
            Inr (JArr (field_seq (JObj kvs) ''individual_updates''))"
    using py_get_list_field [OF ups object_list_arr] .
  have g2: "py_get (JObj kvs) ''blockers'' (JArr []) =
            Inr (JArr (field_seq (JObj kvs) ''blockers''))"
    using py_get_list_field [OF blk str_list_arr] .
  have g3: "py_get (JObj kvs) ''action_items'' (JArr []) =
            Inr (JArr (field_seq (JObj kvs) ''action_items''))"
    using py_get_list_field [OF acts object_list_arr] .
  have g4: "py_get (JObj kvs) ''decisions'' (JArr []) =
            Inr (JArr (field_seq (JObj kvs) ''decisions''))"
    using py_get_list_field [OF dec str_list_arr] .
  have g5: "py_get (JObj kvs) ''key_discussions'' (JArr []) =
            Inr (JArr (field_seq (JObj kvs) ''key_discussions''))"
    using py_get_list_field [OF dis str_list_arr] .
  have u: "append_blocks (update_block repr) h (field_seq (JObj kvs) ''individual_updates'') =
           Inr (h @ updates_section repr (field_seq (JObj kvs) ''individual_updates''))"
  proof -
    have "list_all (\<lambda>x. \<exists>s. update_block repr x = Inr s)
            (field_seq (JObj kvs) ''individual_updates'')"
      using object_list_items [OF ups] update_block_obj by (auto simp: list_all_iff)
    then show ?thesis by (simp add: append_blocks_ok updates_section_def)
  qed
  show ?thesis
    unfolding m format_minutes_as_html_def
    by (simp add: h g1 g2 g3 g4 g5 u py_iter_def li_step_arr
        action_items_step_arr [OF object_list_items [OF acts]] minutes_foot_ok [OF att]
        text_of_def)
qed

lemma li_section_empty: "li_section repr heading items = [] \<longleftrightarrow> items = []"
  by (simp add: li_section_def)

lemma action_items_section_empty: "action_items_section repr items = [] \<longleftrightarrow> items = []"
  by (simp add: action_items_section_def)

lemma li_section_heading: "items \<noteq> [] \<Longrightarrow> prefix heading (li_section repr heading items)"
  by (simp add: li_section_def)

lemma action_items_section_heading:
  "items \<noteq> [] \<Longrightarrow> prefix action_items_heading (action_items_section repr items)"
  by (simp add: action_items_section_def)

lemma head_ends_with_updates_heading:
  \<open>suffix ''<h2>Individual Updates</h2>\<newline>        '' (head_text d c s)\<close>
proof -
  have \<open>\<exists>zs. head_text d c s = zs @ ''<h2>Individual Updates</h2>\<newline>        ''\<close>
    unfolding head_text_def by (simp add: append_eq_append_conv2)
  then show ?thesis by (simp add: suffix_def)
qed

lemma meeting_record_head:
  assumes "meeting_record m"
  shows "\<exists>c s. minutes_head repr m d = Inr (head_text d c s)"
proof -
  from assms obtain kvs where m: "m = JObj kvs"
    by (cases m) (simp_all add: meeting_record_def)
  from assms m have "optional kvs ''attendees'' str_list"
    by (simp add: meeting_record_def)
  from minutes_head_ok [OF this] m show ?thesis by blast
qed

subsection \<open>Determinism of the renderer\<close>

text \<open>
  C7. Two renderings of the same record and date whose readings of the clock print the
  same time stamp give the same result, text or exception: the renderer reads nothing
  else from outside its arguments.
\<close>

theorem render_deterministic:
  "strftime_stamp now1 = strftime_stamp now2 \<Longrightarrow>
   format_minutes_as_html repr meeting_data meeting_date now1 =
   format_minutes_as_html repr meeting_data meeting_date now2"
  by (simp add: format_minutes_as_html_def minutes_foot_def)

lemma monday_stamp: "strftime_stamp monday = ''2024-01-15 09:30:05''"
  by (simp add: strftime_stamp_def strftime_date_def pad2_def pad4_def monday_def
      str_nat.simps digit_char_def)

lemma monday_later_stamp: "strftime_stamp monday_later = ''2024-01-15 09:30:05''"
  by (simp add: strftime_stamp_def strftime_date_def pad2_def pad4_def monday_later_def
      str_nat.simps digit_char_def)

theorem render_deterministic_witness:
  "strftime_stamp monday = strftime_stamp monday_later \<and>
   microsecond monday \<noteq> microsecond monday_later \<and>
   format_minutes_as_html example_repr standup_record ''2024-01-15'' monday =
   format_minutes_as_html example_repr standup_record ''2024-01-15'' monday_later"
proof -
  have s: "strftime_stamp monday = strftime_stamp monday_later"
    by (simp add: monday_stamp monday_later_stamp)
  show ?thesis
    using s render_deterministic [OF s, of example_repr standup_record "''2024-01-15''"]
    by (simp add: monday_def monday_later_def)
qed

subsection \<open>Sections of the document\<close>

text \<open>
  C3. On a meeting record the document is the head, the blocks of the individual updates,
  the sections of the blockers, the action items, the decisions and the key discussions,
  and the foot, in this order. Each of the four sections is the empty text when its
  sequence is empty or absent, and starts with its heading otherwise. The head always
  ends with the heading of the individual updates, and no block follows the heading when
  there are no updates. The texts of the record are inserted as they are, so the
  statement is about the blocks the renderer emits, not about a search of the document
  for the text of a heading.
\<close>

theorem sections_present_iff_nonempty:
  \<open>meeting_record m \<Longrightarrow>
   format_minutes_as_html repr m d now =
     Inr (text_of (minutes_head repr m d)
          @ updates_section repr (field_seq m ''individual_updates'')
          @ li_section repr ''<h2>Blockers/Impediments</h2><ul>'' (field_seq m ''blockers'')
          @ action_items_section repr (field_seq m ''action_items'')
          @ li_section repr ''<h2>Decisions Made</h2><ul>'' (field_seq m ''decisions'')
          @ li_section repr ''<h2>Key Discussion Points</h2><ul>'' (field_seq m ''key_discussions'')
          @ foot_text (length (field_seq m ''attendees'')) (length (field_seq m ''action_items''))
              (length (field_seq m ''blockers'')) (length (field_seq m ''decisions''))
              (strftime_stamp now))
   \<and> suffix ''<h2>Individual Updates</h2>\<newline>        '' (text_of (minutes_head repr m d))
   \<and> (field_seq m ''individual_updates'' = [] \<longrightarrow>
        updates_section repr (field_seq m ''individual_updates'') = [])
   \<and> (li_section repr ''<h2>Blockers/Impediments</h2><ul>'' (field_seq m ''blockers'') \<noteq> []
        \<longleftrightarrow> field_seq m ''blockers'' \<noteq> [])
   \<and> (field_seq m ''blockers'' \<noteq> [] \<longrightarrow>
        prefix ''<h2>Blockers/Impediments</h2><ul>''
          (li_section repr ''<h2>Blockers/Impediments</h2><ul>'' (field_seq m ''blockers'')))
   \<and> (action_items_section repr (field_seq m ''action_items'') \<noteq> []
        \<longleftrightarrow> field_seq m ''action_items'' \<noteq> [])
   \<and> (field_seq m ''action_items'' \<noteq> [] \<longrightarrow>
        prefix action_items_heading (action_items_section repr (field_seq m ''action_items'')))
   \<and> (li_section repr ''<h2>Decisions Made</h2><ul>'' (field_seq m ''decisions'') \<noteq> []
        \<longleftrightarrow> field_seq m ''decisions'' \<noteq> [])
   \<and> (field_seq m ''decisions'' \<noteq> [] \<longrightarrow>
        prefix ''<h2>Decisions Made</h2><ul>''
          (li_section repr ''<h2>Decisions Made</h2><ul>'' (field_seq m ''decisions'')))
   \<and> (li_section repr ''<h2>Key Discussion Points</h2><ul>'' (field_seq m ''key_discussions'') \<noteq> []
        \<longleftrightarrow> field_seq m ''key_discussions'' \<noteq> [])
   \<and> (field_seq m ''key_discussions'' \<noteq> [] \<longrightarrow>
        prefix ''<h2>Key Discussion Points</h2><ul>''
          (li_section repr ''<h2>Key Discussion Points</h2><ul>'' (field_seq m ''key_discussions'')))\<close>
proof -
  assume mr: "meeting_record m"
  from meeting_record_head [OF mr] obtain c s where
    h: "minutes_head repr m d = Inr (head_text d c s)" by blast
  have suf: \<open>suffix ''<h2>Individual Updates</h2>\<newline>        '' (text_of (minutes_head repr m d))\<close>
    using head_ends_with_updates_heading by (simp add: h text_of_def)
  show ?thesis
    using render_sections [OF mr] suf
    by (simp add: li_section_empty action_items_section_empty li_section_heading
        action_items_section_heading updates_section_def)
qed

lemma standup_record_ok: "meeting_record standup_record"
  by (simp add: meeting_record_def standup_record_def optional_def str_list_def is_str_def
      object_list_def flat_object_def)

lemma standup_rendered:
  "text_of (minutes_head example_repr standup_record ''2024-01-15'')
   @ updates_section example_repr (field_seq standup_record ''individual_updates'')
   @ li_section example_repr ''<h2>Blockers/Impediments</h2><ul>'' (field_seq standup_record ''blockers'')
   @ action_items_section example_repr (field_seq standup_record ''action_items'')
   @ li_section example_repr ''<h2>Decisions Made</h2><ul>'' (field_seq standup_record ''decisions'')
   @ li_section example_repr ''<h2>Key Discussion Points</h2><ul>'' (field_seq standup_record ''key_discussions'')
   @ foot_text (length (field_seq standup_record ''attendees''))
       (length (field_seq standup_record ''action_items''))
       (length (field_seq standup_record ''blockers''))
       (length (field_seq standup_record ''decisions''))
       (strftime_stamp monday) = standup_html"
  by (simp add: standup_record_def standup_html_def field_seq_def updates_section_def
      li_section_def action_items_section_def minutes_head_def attendees_cell_def py_get_obj
      py_join_def py_iter_def fmt_def text_of_def action_row_def monday_stamp
      numeral_3_eq_3 numeral_2_eq_2)

lemma standup_has_action_items: "sublist ''<h2>Action Items</h2>'' standup_html"
  by (simp add: standup_html_def head_text_def action_items_heading_def row_text_def foot_text_def
      str_nat.simps digit_char_def sublist_Cons_right)

lemma standup_has_updates_heading: "sublist ''<h2>Individual Updates</h2>'' standup_html"
  by (simp add: standup_html_def head_text_def action_items_heading_def row_text_def foot_text_def
      str_nat.simps digit_char_def sublist_Cons_right)

lemma standup_has_no_blockers: "\<not> sublist ''<h2>Blockers/Impediments</h2>'' standup_html"
  by (simp add: standup_html_def head_text_def action_items_heading_def row_text_def foot_text_def
      str_nat.simps digit_char_def sublist_Cons_right)

theorem sections_present_iff_nonempty_witness:
  "meeting_record standup_record
   \<and> format_minutes_as_html example_repr standup_record ''2024-01-15'' monday = Inr standup_html
   \<and> field_seq standup_record ''blockers'' = []
   \<and> length (field_seq standup_record ''action_items'') = 2
   \<and> sublist ''<h2>Action Items</h2>'' standup_html
   \<and> sublist ''<h2>Individual Updates</h2>'' standup_html
   \<and> \<not> sublist ''<h2>Blockers/Impediments</h2>'' standup_html"
proof -
  have "format_minutes_as_html example_repr standup_record ''2024-01-15'' monday = Inr standup_html"
    using sections_present_iff_nonempty [OF standup_record_ok, of example_repr "''2024-01-15''" monday]
    by (simp only: standup_rendered)
  moreover have "field_seq standup_record ''blockers'' = []"
    and "length (field_seq standup_record ''action_items'') = 2"
    by (simp_all add: field_seq_def standup_record_def)
  ultimately show ?thesis
    using standup_record_ok standup_has_action_items standup_has_updates_heading
      standup_has_no_blockers by simp
qed

subsection \<open>Defaults for missing fields\<close>









lemma py_truthy_map_items [simp]: "py_truthy (map_items f x) = py_truthy x"
  by (cases x) (simp_all add: map_items_def py_truthy_def)

lemma py_len_map_items [simp]: "py_len (map_items f x) = py_len x"
  by (cases x) (simp_all add: map_items_def py_len_def)












subsection \<open>The Attendees cell\<close>

lemma no_attendees_ok: "meeting_record no_attendees_record"
  by (simp add: meeting_record_def no_attendees_record_def optional_def str_list_def)

lemma no_attendees_cell: "attendees_cell no_attendees_record = Inr []"
  by (simp add: attendees_cell_def no_attendees_record_def py_get_obj py_join_def py_iter_def)

lemma no_attendees_rendered:
  "format_minutes_as_html example_repr no_attendees_record ''2024-01-15'' monday =
   Inr no_attendees_html"
  by (simp add: format_minutes_as_html_def no_attendees_record_def no_attendees_html_def
      minutes_head_def attendees_cell_def py_get_obj py_join_def py_iter_def py_truthy_def
      py_len_def fmt_def action_items_step_def li_step_def minutes_foot_def monday_stamp)

lemma no_attendees_text: "\<not> sublist ''No attendees extracted'' no_attendees_html"
  by (simp add: no_attendees_html_def head_text_def foot_text_def str_nat.simps digit_char_def
      sublist_Cons_right)

text \<open>
  C8, as stated, fails: for the record whose list of attendees is present and empty the
  Attendees cell is the empty text, and the words \<open>No attendees extracted\<close> occur nowhere
  in the document.
\<close>

theorem empty_attendees_counterexample:
  "meeting_record no_attendees_record
   \<and> field_seq no_attendees_record ''attendees'' = []
   \<and> attendees_cell no_attendees_record = Inr []
   \<and> format_minutes_as_html example_repr no_attendees_record ''2024-01-15'' monday =
       Inr no_attendees_html
   \<and> \<not> sublist ''No attendees extracted'' no_attendees_html"
  using no_attendees_ok no_attendees_cell no_attendees_rendered no_attendees_text
  by (simp add: field_seq_def no_attendees_record_def)

text \<open>
  C8, amended. The default of \<^verbatim>\<open>dict.get\<close> is used when the key is absent, not when
  its value is empty: a dictionary without the key \<open>attendees\<close> has the Attendees cell
  \<open>No attendees extracted\<close>, one whose \<open>attendees\<close> is the empty list has the empty cell,
  and the document of a meeting record starts with the head that holds this cell.
\<close>

theorem absent_attendees_cell:
  "(map_of kvs ''attendees'' = None \<longrightarrow>
      attendees_cell (JObj kvs) = Inr ''No attendees extracted'')
   \<and> (map_of kvs ''attendees'' = Some (JArr []) \<longrightarrow> attendees_cell (JObj kvs) = Inr [])
   \<and> (meeting_record (JObj kvs) \<longrightarrow>
        (\<exists>cell summary_text rest.
           attendees_cell (JObj kvs) = Inr cell \<and>
           format_minutes_as_html repr (JObj kvs) d now =
             Inr (head_text d cell summary_text @ rest)))"
proof -
  have "meeting_record (JObj kvs) \<longrightarrow>
        (\<exists>cell summary_text rest.
           attendees_cell (JObj kvs) = Inr cell \<and>
           format_minutes_as_html repr (JObj kvs) d now =
             Inr (head_text d cell summary_text @ rest))"
  proof
    assume mr: "meeting_record (JObj kvs)"
    then have "optional kvs ''attendees'' str_list" by (simp add: meeting_record_def)
    from minutes_head_ok [OF this] obtain c where
      c: "attendees_cell (JObj kvs) = Inr c" and
      h: "minutes_head repr (JObj kvs) d =
            Inr (head_text d c
                  (fmt repr (case map_of kvs ''summary'' of
                               None \<Rightarrow> JStr ''No summary available.'' | Some v \<Rightarrow> v)))"
      by blast
    show "\<exists>cell summary_text rest.
           attendees_cell (JObj kvs) = Inr cell \<and>
           format_minutes_as_html repr (JObj kvs) d now =
             Inr (head_text d cell summary_text @ rest)"
      using c render_sections [OF mr, of repr d now] by (simp add: h text_of_def) blast
  qed
  then show ?thesis
    by (simp add: attendees_cell_def py_get_obj py_join_def py_iter_def)
qed

theorem absent_attendees_cell_witness:
  "map_of ([] :: (string \<times> json) list) ''attendees'' = None
   \<and> attendees_cell (JObj []) = Inr ''No attendees extracted''
   \<and> map_of [(''attendees'', JArr [])] ''attendees'' = Some (JArr [])
   \<and> attendees_cell (JObj [(''attendees'', JArr [])]) = Inr []"
  using absent_attendees_cell [of "[]"] absent_attendees_cell [of "[(''attendees'', JArr [])]"]
  by simp

subsection \<open>Extraction\<close>

lemma bind_io_Inl [simp]: "f w = (Inl x, w') \<Longrightarrow> bind_io f g w = (Inl x, w')"
  by (simp add: bind_io_def)

lemma bind_io_Inr [simp]: "f w = (Inr a, w') \<Longrightarrow> bind_io f g w = g a w'"
  by (simp add: bind_io_def)

lemma bind_io_pure [simp]: "bind_io (pure_io r) g w = (case r of Inl x \<Rightarrow> (Inl x, w) | Inr a \<Rightarrow> g a w)"
  by (simp add: bind_io_def pure_io_def split: sum.splits)

lemma primary_attempt_eq:
  "primary_attempt e t w =
   (bind_exn (bind_exn (chat_completion e (primary_request t)) first_content) (py_json_loads e),
    w\<lparr>chat_log := chat_log w @ [primary_request t]\<rparr>)"
  by (cases "bind_exn (chat_completion e (primary_request t)) first_content")
     (simp_all add: primary_attempt_def chat_content_def bind_io_def pure_io_def)

lemma simple_attempt_eq:
  "simple_attempt e t w =
   (bind_exn (bind_exn (chat_completion e (simple_request t)) first_content) (py_json_loads e),
    w\<lparr>chat_log := chat_log w @ [simple_request t]\<rparr>)"
  by (cases "bind_exn (chat_completion e (simple_request t)) first_content")
     (simp_all add: simple_attempt_def chat_content_def bind_io_def pure_io_def)

lemma simple_ai_extraction_eq:
  "simple_ai_extraction e t w =
   (case fst (simple_attempt e t w) of Inr md \<Rightarrow> Inr md | Inl _ \<Rightarrow> Inr safe_default_record,
    w\<lparr>chat_log := chat_log w @ [simple_request t]\<rparr>)"
  by (simp add: simple_ai_extraction_def simple_attempt_eq split: sum.splits)

lemma attempt_fst_world:
  "fst (primary_attempt e t w) = fst (primary_attempt e t w0)"
  "fst (simple_attempt e t w) = fst (simple_attempt e t w0)"
  "fst (simple_ai_extraction e t w) = fst (simple_ai_extraction e t w0)"
  by (simp_all add: primary_attempt_eq simple_attempt_eq simple_ai_extraction_eq)

lemma requests_differ: "primary_request t \<noteq> simple_request t'"
  by (simp add: primary_request_def simple_request_def)

lemma datetime_now_chat_log [simp]: "chat_log (snd (datetime_now e w)) = chat_log w"
  by (simp add: datetime_now_def)

lemma process_transcript_cases:
  "process_transcript_with_ai e t d w =
   (let w1 = (if not_given d then snd (datetime_now e w) else w);
        w2 = w1\<lparr>chat_log := chat_log w1 @ [primary_request t]\<rparr> in
    case fst (primary_attempt e t w) of
      Inr md \<Rightarrow> (Inr md, w2)
    | Inl x \<Rightarrow> (if x = JSONDecodeError then simple_ai_extraction e t w2 else (Inl x, w2)))"
proof -
  define p where "p = bind_exn (bind_exn (chat_completion e (primary_request t)) first_content) (py_json_loads e)"
  show ?thesis
  proof (cases p)
    case (Inl x)
    then show ?thesis
      unfolding process_transcript_with_ai_def Let_def primary_attempt_eq p_def [symmetric]
      by (cases x) simp_all
  next
    case (Inr md)
    then show ?thesis
      unfolding process_transcript_with_ai_def Let_def primary_attempt_eq p_def [symmetric]
      by simp
  qed
qed

text \<open>
  C5. In a run of \<^verbatim>\<open>process_transcript_with_ai\<close> the request of the simplified tier
  is sent if and only if the body of the primary \<^verbatim>\<open>try\<close> raised a JSON decode error.
  Then the result is that of the simplified tier, after the two requests. Any other
  exception of the primary tier is the result of the run, and only the primary request
  was sent; so it is when the primary tier succeeds.
\<close>

theorem fallback_iff_json_decode_error:
  "process_transcript_with_ai e transcript meeting_date w = (r, w') \<Longrightarrow>
     (simple_request transcript \<in> set (asked w w') \<longleftrightarrow>
        fst (primary_attempt e transcript w) = Inl JSONDecodeError)
   \<and> (fst (primary_attempt e transcript w) = Inl JSONDecodeError \<longrightarrow>
        r = fst (simple_ai_extraction e transcript w) \<and>
        asked w w' = [primary_request transcript, simple_request transcript])
   \<and> (\<forall>x. fst (primary_attempt e transcript w) = Inl x \<and> x \<noteq> JSONDecodeError \<longrightarrow>
        r = Inl x \<and> asked w w' = [primary_request transcript])
   \<and> (\<forall>md. fst (primary_attempt e transcript w) = Inr md \<longrightarrow>
        r = Inr md \<and> asked w w' = [primary_request transcript])"
proof -
  assume run: "process_transcript_with_ai e transcript meeting_date w = (r, w')"
  show ?thesis
  proof (cases "fst (primary_attempt e transcript w)")
    case (Inr md)
    with run show ?thesis
      by (auto simp: process_transcript_cases Let_def asked_def requests_differ [symmetric])
  next
    case (Inl x)
    show ?thesis
    proof (cases "x = JSONDecodeError")
      case True
      with Inl run show ?thesis
        by (auto simp: process_transcript_cases Let_def asked_def simple_ai_extraction_eq
            simple_attempt_eq)
    next
      case False
      with Inl run show ?thesis
        by (auto simp: process_transcript_cases Let_def asked_def requests_differ [symmetric])
    qed
  qed
qed

text \<open>
  C4. The simplified tier never raises: it always returns a record. When its completion
  call raises, when the answer has no choice to read, and when the text of the answer
  is not JSON, it returns the dictionary with \<open>attendees\<close> the one-element list
  \<open>Unable to extract attendees\<close>, \<open>summary\<close> the text
  \<open>Meeting transcript processed but extraction failed.\<close>, and \<open>action_items\<close> and
  \<open>blockers\<close> the empty list; when the text is JSON, it returns the value that was
  read. A tier fails when it is run and the body of its \<^verbatim>\<open>try\<close> raises: in a run in
  which the primary tier failed, the request of the simplified tier was sent and that
  tier failed too, the result is that dictionary. The simplified tier is run exactly
  after a JSON decode error of the primary tier, and this case is stated on its own as
  well.
\<close>

theorem safe_default_when_both_tiers_fail:
  "(\<exists>md. fst (simple_ai_extraction e transcript w) = Inr md)
   \<and> (\<forall>x. fst (simple_attempt e transcript w) = Inl x \<longrightarrow>
        fst (simple_ai_extraction e transcript w) =
          Inr (JObj [(''attendees'', JArr [JStr ''Unable to extract attendees'']),
                   (''summary'', JStr ''Meeting transcript processed but extraction failed.''),
                   (''action_items'', JArr []),
                   (''blockers'', JArr [])]))
   \<and> (\<forall>x. chat_completion e (simple_request transcript) = Inl x \<longrightarrow>
        fst (simple_ai_extraction e transcript w) =
          Inr (JObj [(''attendees'', JArr [JStr ''Unable to extract attendees'']),
                   (''summary'', JStr ''Meeting transcript processed but extraction failed.''),
                   (''action_items'', JArr []),
                   (''blockers'', JArr [])]))
   \<and> (chat_completion e (simple_request transcript) = Inr [] \<longrightarrow>
        fst (simple_ai_extraction e transcript w) =
          Inr (JObj [(''attendees'', JArr [JStr ''Unable to extract attendees'']),
                   (''summary'', JStr ''Meeting transcript processed but extraction failed.''),
                   (''action_items'', JArr []),
                   (''blockers'', JArr [])]))
   \<and> (\<forall>c cs. chat_completion e (simple_request transcript) = Inr (c # cs)
          \<and> json_loads e c = None \<longrightarrow>
        fst (simple_ai_extraction e transcript w) =
          Inr (JObj [(''attendees'', JArr [JStr ''Unable to extract attendees'']),
                   (''summary'', JStr ''Meeting transcript processed but extraction failed.''),
                   (''action_items'', JArr []),
                   (''blockers'', JArr [])]))
   \<and> (\<forall>c cs v. chat_completion e (simple_request transcript) = Inr (c # cs)
          \<and> json_loads e c = Some v \<longrightarrow>
        fst (simple_ai_extraction e transcript w) = Inr v)
   \<and> (process_transcript_with_ai e transcript meeting_date w = (r, w')
        \<and> (\<exists>x. fst (primary_attempt e transcript w) = Inl x)
        \<and> simple_request transcript \<in> set (asked w w')
        \<and> (\<exists>y. fst (simple_attempt e transcript w) = Inl y)
      \<longrightarrow> r =
          Inr (JObj [(''attendees'', JArr [JStr ''Unable to extract attendees'']),
                   (''summary'', JStr ''Meeting transcript processed but extraction failed.''),
                   (''action_items'', JArr []),
                   (''blockers'', JArr [])]))
   \<and> (fst (primary_attempt e transcript w) = Inl JSONDecodeError
        \<and> (\<exists>y. fst (simple_attempt e transcript w) = Inl y)
      \<longrightarrow> fst (process_transcript_with_ai e transcript meeting_date w) =
          Inr (JObj [(''attendees'', JArr [JStr ''Unable to extract attendees'']),
                   (''summary'', JStr ''Meeting transcript processed but extraction failed.''),
                   (''action_items'', JArr []),
                   (''blockers'', JArr [])]))"
proof -
  have never: "\<exists>md. fst (simple_ai_extraction e transcript w) = Inr md"
    by (simp add: simple_ai_extraction_eq split: sum.splits)
  have dflt: "\<And>x w0. fst (simple_attempt e transcript w) = Inl x \<Longrightarrow>
      fst (simple_ai_extraction e transcript w0) = Inr safe_default_record"
    by (simp add: simple_ai_extraction_eq simple_attempt_eq)
  have call: "\<And>x. chat_completion e (simple_request transcript) = Inl x \<Longrightarrow>
      fst (simple_ai_extraction e transcript w) = Inr safe_default_record"
    by (simp add: simple_ai_extraction_eq simple_attempt_eq)
  have choice: "chat_completion e (simple_request transcript) = Inr [] \<Longrightarrow>
      fst (simple_ai_extraction e transcript w) = Inr safe_default_record"
    by (simp add: simple_ai_extraction_eq simple_attempt_eq first_content_def)
  have parse: "\<And>c cs. chat_completion e (simple_request transcript) = Inr (c # cs) \<Longrightarrow>
      json_loads e c = None \<Longrightarrow>
      fst (simple_ai_extraction e transcript w) = Inr safe_default_record"
    by (simp add: simple_ai_extraction_eq simple_attempt_eq first_content_def py_json_loads_def)
  have good: "\<And>c cs v. chat_completion e (simple_request transcript) = Inr (c # cs) \<Longrightarrow>
      json_loads e c = Some v \<Longrightarrow> fst (simple_ai_extraction e transcript w) = Inr v"
    by (simp add: simple_ai_extraction_eq simple_attempt_eq first_content_def py_json_loads_def)
  have direct: "\<And>y. fst (primary_attempt e transcript w) = Inl JSONDecodeError \<Longrightarrow>
      fst (simple_attempt e transcript w) = Inl y \<Longrightarrow>
      fst (process_transcript_with_ai e transcript meeting_date w) = Inr safe_default_record"
    by (simp add: process_transcript_cases Let_def dflt)
  have ran: "process_transcript_with_ai e transcript meeting_date w = (r, w') \<Longrightarrow>
      simple_request transcript \<in> set (asked w w') \<Longrightarrow>
      fst (primary_attempt e transcript w) = Inl JSONDecodeError"
  proof (cases "fst (primary_attempt e transcript w)")
    case (Inr md)
    assume "process_transcript_with_ai e transcript meeting_date w = (r, w')"
      and "simple_request transcript \<in> set (asked w w')"
    with Inr show ?thesis
      by (auto simp: process_transcript_cases Let_def asked_def requests_differ [symmetric])
  next
    case (Inl x)
    assume "process_transcript_with_ai e transcript meeting_date w = (r, w')"
      and "simple_request transcript \<in> set (asked w w')"
    with Inl show ?thesis
      by (cases "x = JSONDecodeError")
         (auto simp: process_transcript_cases Let_def asked_def requests_differ [symmetric])
  qed
  have both: "process_transcript_with_ai e transcript meeting_date w = (r, w') \<Longrightarrow>
      simple_request transcript \<in> set (asked w w') \<Longrightarrow>
      fst (simple_attempt e transcript w) = Inl y \<Longrightarrow> r = Inr safe_default_record" for y
    using direct [OF ran] by (metis fst_conv)
  show ?thesis
    unfolding safe_default_record_def [symmetric]
    using never dflt call choice parse good direct both by blast
qed

lemma garbled_primary:
  "fst (primary_attempt garbled_env transcript_text fresh_world) = Inl JSONDecodeError"
  by (simp add: primary_attempt_eq garbled_env_def garbled_chat_def office_env_def
      primary_request_def first_content_def py_json_loads_def office_loads_def
      standup_answer_def)

lemma garbled_simple:
  "fst (simple_attempt garbled_env transcript_text fresh_world) =
   Inl (OtherError ''openai.error.APIConnectionError'')"
  by (simp add: simple_attempt_eq garbled_env_def garbled_chat_def office_env_def
      simple_request_def)

lemma garbled_asked:
  "asked fresh_world (snd (process_transcript_with_ai garbled_env transcript_text None fresh_world))
   = [primary_request transcript_text, simple_request transcript_text]"
  by (simp add: process_transcript_cases garbled_primary simple_ai_extraction_eq Let_def
      asked_def not_given_def datetime_now_def)

theorem safe_default_when_both_tiers_fail_witness:
  "fst (primary_attempt garbled_env transcript_text fresh_world) = Inl JSONDecodeError
   \<and> chat_completion garbled_env (simple_request transcript_text) =
       Inl (OtherError ''openai.error.APIConnectionError'')
   \<and> fst (simple_attempt garbled_env transcript_text fresh_world) =
       Inl (OtherError ''openai.error.APIConnectionError'')
   \<and> asked fresh_world
        (snd (process_transcript_with_ai garbled_env transcript_text None fresh_world)) =
       [primary_request transcript_text, simple_request transcript_text]
   \<and> fst (process_transcript_with_ai garbled_env transcript_text None fresh_world) =
       Inr (JObj [(''attendees'', JArr [JStr ''Unable to extract attendees'']),
               (''summary'', JStr ''Meeting transcript processed but extraction failed.''),
               (''action_items'', JArr []),
               (''blockers'', JArr [])])
   \<and> fst (simple_ai_extraction garbled_env transcript_text fresh_world) =
       Inr (JObj [(''attendees'', JArr [JStr ''Unable to extract attendees'']),
               (''summary'', JStr ''Meeting transcript processed but extraction failed.''),
               (''action_items'', JArr []),
               (''blockers'', JArr [])])
   \<and> fst (simple_ai_extraction silent_env transcript_text fresh_world) =
       Inr (JObj [(''attendees'', JArr [JStr ''Unable to extract attendees'']),
               (''summary'', JStr ''Meeting transcript processed but extraction failed.''),
               (''action_items'', JArr []),
               (''blockers'', JArr [])])
   \<and> fst (simple_ai_extraction prose_env transcript_text fresh_world) =
       Inr (JObj [(''attendees'', JArr [JStr ''Unable to extract attendees'']),
               (''summary'', JStr ''Meeting transcript processed but extraction failed.''),
               (''action_items'', JArr []),
               (''blockers'', JArr [])])
   \<and> fst (process_transcript_with_ai prose_env transcript_text None fresh_world) =
       Inr (JObj [(''attendees'', JArr [JStr ''Unable to extract attendees'']),
               (''summary'', JStr ''Meeting transcript processed but extraction failed.''),
               (''action_items'', JArr []),
               (''blockers'', JArr [])])
   \<and> fst (simple_ai_extraction answering_env transcript_text fresh_world) = Inr standup_record"
proof -
  let ?x = "OtherError ''openai.error.APIConnectionError''"
  let ?prose = "''Here are the minutes you asked for.''"
  note g = safe_default_when_both_tiers_fail
    [of garbled_env transcript_text fresh_world None
        "fst (process_transcript_with_ai garbled_env transcript_text None fresh_world)"
        "snd (process_transcript_with_ai garbled_env transcript_text None fresh_world)"]
  have c1: "chat_completion garbled_env (simple_request transcript_text) = Inl ?x"
    by (simp add: garbled_env_def garbled_chat_def office_env_def simple_request_def)
  have run: "fst (process_transcript_with_ai garbled_env transcript_text None fresh_world) =
       Inr (JObj [(''attendees'', JArr [JStr ''Unable to extract attendees'']),
               (''summary'', JStr ''Meeting transcript processed but extraction failed.''),
               (''action_items'', JArr []),
               (''blockers'', JArr [])])"
    using g garbled_primary garbled_simple garbled_asked by simp
  have g3: "fst (simple_ai_extraction garbled_env transcript_text fresh_world) =
       Inr (JObj [(''attendees'', JArr [JStr ''Unable to extract attendees'']),
               (''summary'', JStr ''Meeting transcript processed but extraction failed.''),
               (''action_items'', JArr []),
               (''blockers'', JArr [])])"
    using g c1 by simp
  have s4: "fst (simple_ai_extraction silent_env transcript_text fresh_world) =
       Inr (JObj [(''attendees'', JArr [JStr ''Unable to extract attendees'']),
               (''summary'', JStr ''Meeting transcript processed but extraction failed.''),
               (''action_items'', JArr []),
               (''blockers'', JArr [])])"
    using safe_default_when_both_tiers_fail [of silent_env transcript_text fresh_world]
    by (simp add: silent_env_def)
  have p1: "fst (primary_attempt prose_env transcript_text fresh_world) = Inl JSONDecodeError"
    by (simp add: primary_attempt_eq prose_env_def office_env_def first_content_def
        py_json_loads_def office_loads_def standup_answer_def)
  have p2: "fst (simple_attempt prose_env transcript_text fresh_world) = Inl JSONDecodeError"
    by (simp add: simple_attempt_eq prose_env_def office_env_def first_content_def
        py_json_loads_def office_loads_def standup_answer_def)
  have p3: "chat_completion prose_env (simple_request transcript_text) = Inr [?prose]"
    "json_loads prose_env ?prose = None"
    by (simp_all add: prose_env_def office_env_def office_loads_def standup_answer_def)
  note p = safe_default_when_both_tiers_fail [of prose_env transcript_text fresh_world None]
  have p5: "fst (simple_ai_extraction prose_env transcript_text fresh_world) =
       Inr (JObj [(''attendees'', JArr [JStr ''Unable to extract attendees'']),
               (''summary'', JStr ''Meeting transcript processed but extraction failed.''),
               (''action_items'', JArr []),
               (''blockers'', JArr [])])"
    using p p3 by simp
  have p8: "fst (process_transcript_with_ai prose_env transcript_text None fresh_world) =
       Inr (JObj [(''attendees'', JArr [JStr ''Unable to extract attendees'']),
               (''summary'', JStr ''Meeting transcript processed but extraction failed.''),
               (''action_items'', JArr []),
               (''blockers'', JArr [])])"
    using p p1 p2 by simp
  have a6: "fst (simple_ai_extraction answering_env transcript_text fresh_world) = Inr standup_record"
    using safe_default_when_both_tiers_fail [of answering_env transcript_text fresh_world]
    by (simp add: answering_env_def office_env_def office_loads_def)
  show ?thesis
    by (intro conjI) (rule garbled_primary c1 garbled_simple garbled_asked run g3 s4 p5 p8 a6)+
qed

lemma timeout_primary:
  "fst (primary_attempt timeout_env transcript_text fresh_world) =
   Inl (OtherError ''openai.error.Timeout'')"
  by (simp add: primary_attempt_eq timeout_env_def timeout_chat_def office_env_def)

theorem fallback_iff_json_decode_error_witness:
  "fst (primary_attempt timeout_env transcript_text fresh_world) =
     Inl (OtherError ''openai.error.Timeout'')
   \<and> fst (process_transcript_with_ai timeout_env transcript_text None fresh_world) =
       Inl (OtherError ''openai.error.Timeout'')
   \<and> asked fresh_world
        (snd (process_transcript_with_ai timeout_env transcript_text None fresh_world)) =
       [primary_request transcript_text]
   \<and> simple_request transcript_text \<notin>
       set (asked fresh_world
             (snd (process_transcript_with_ai timeout_env transcript_text None fresh_world)))
   \<and> fst (primary_attempt garbled_env transcript_text fresh_world) = Inl JSONDecodeError
   \<and> simple_request transcript_text \<in>
       set (asked fresh_world
             (snd (process_transcript_with_ai garbled_env transcript_text None fresh_world)))"
  using fallback_iff_json_decode_error
    [of timeout_env transcript_text None fresh_world
        "fst (process_transcript_with_ai timeout_env transcript_text None fresh_world)"
        "snd (process_transcript_with_ai timeout_env transcript_text None fresh_world)"]
    fallback_iff_json_decode_error
    [of garbled_env transcript_text None fresh_world
        "fst (process_transcript_with_ai garbled_env transcript_text None fresh_world)"
        "snd (process_transcript_with_ai garbled_env transcript_text None fresh_world)"]
    timeout_primary garbled_primary requests_differ [of transcript_text transcript_text]
  by simp

subsection \<open>Suggestions\<close>

lemma bind_exn_InrD: "bind_exn r f = Inr y \<Longrightarrow> \<exists>a. r = Inr a \<and> f a = Inr y"
  by (cases r) simp_all

lemma render_ok_prompt_ok:
  assumes "format_minutes_as_html repr md d now = Inr html"
  shows "\<exists>p. suggestion_prompt md = Inr p"
proof -
  from assms obtain ai b dec where
    ai: "py_get md ''action_items'' (JArr []) = Inr ai" and
    b: "py_get md ''blockers'' (JArr []) = Inr b" and
    foot: "\<exists>f. minutes_foot md ai b dec now = Inr f"
    unfolding format_minutes_as_html_def
    by (auto dest!: bind_exn_InrD)
  from foot obtain att n1 n2 n3 where
    "py_get md ''attendees'' (JArr []) = Inr att" "py_len att = Inr n1"
    "py_len ai = Inr n2" "py_len b = Inr n3"
    unfolding minutes_foot_def by (auto dest!: bind_exn_InrD)
  with ai b show ?thesis
    by (simp add: suggestion_prompt_def field_len_def)
qed

lemma generate_eq:
  "suggestion_prompt md = Inr p \<Longrightarrow>
   generate_improvement_suggestions e md w =
   (Inr (case bind_exn (chat_completion e (suggestion_request p)) first_content of
           Inr s \<Rightarrow> s | Inl _ \<Rightarrow> []),
    w\<lparr>chat_log := chat_log w @ [suggestion_request p]\<rparr>)"
  by (simp add: generate_improvement_suggestions_def chat_content_def split: sum.splits)

lemma suggestion_request_differs:
  "suggestion_request p \<noteq> primary_request t" "suggestion_request p \<noteq> simple_request t"
  by (simp_all add: suggestion_request_def primary_request_def simple_request_def)

lemma process_and_publish_eq:
  assumes "resolve_date e meeting_date w = (Inr date, w1)"
    and "process_transcript_with_ai e transcript (Some date) w1 = (Inr md, w2)"
    and "render_minutes e md date w2 = (Inr html, w3)"
    and "suggestion_prompt md = Inr p"
  shows "process_and_publish e self transcript meeting_date w =
    (let suggestions = (case bind_exn (chat_completion e (suggestion_request p)) first_content of
                          Inr s \<Rightarrow> s | Inl _ \<Rightarrow> []);
         html_content = with_suggestions html suggestions;
         w4 = w3\<lparr>chat_log := chat_log w3 @ [suggestion_request p]\<rparr> in
     case confluence self of
       Some publisher \<Rightarrow> publish e publisher md date html_content w4
     | None \<Rightarrow>
         (Inr \<lparr>r_meeting_data = md, r_html_content = html_content, r_confluence_url = None,
               r_page_id = None, r_local_file = None, r_json_file = None\<rparr>, w4))"
  using assms
  by (simp add: process_and_publish_def bind_io_def generate_eq Let_def pure_io_def
      split: option.splits)

lemma datetime_now_chat [simp]: "datetime_now (e\<lparr>chat_completion := c\<rparr>) = datetime_now e"
  by (simp add: fun_eq_iff datetime_now_def)

lemma py_json_loads_chat [simp]: "py_json_loads (e\<lparr>chat_completion := c\<rparr>) = py_json_loads e"
  by (simp add: fun_eq_iff py_json_loads_def)

lemma create_page_chat [simp]: "create_page (e\<lparr>chat_completion := c\<rparr>) = create_page e"
  by (simp add: fun_eq_iff create_page_def)

lemma update_page_chat [simp]: "update_page (e\<lparr>chat_completion := c\<rparr>) = update_page e"
  by (simp add: fun_eq_iff update_page_def update_request_def)

lemma find_page_chat [simp]:
  "find_page_by_title (e\<lparr>chat_completion := c\<rparr>) = find_page_by_title e"
  by (simp add: fun_eq_iff find_page_by_title_def)

lemma create_or_update_chat [simp]:
  "create_or_update (e\<lparr>chat_completion := c\<rparr>) = create_or_update e"
  by (simp add: fun_eq_iff create_or_update_def split: option.splits)

lemma env_chat_irrelevant:
  "resolve_date (e\<lparr>chat_completion := c\<rparr>) = resolve_date e"
  "render_minutes (e\<lparr>chat_completion := c\<rparr>) = render_minutes e"
  "publish (e\<lparr>chat_completion := c\<rparr>) = publish e"
  by (simp_all add: fun_eq_iff resolve_date_def render_minutes_def publish_def
      split: option.splits)

lemma simple_reads_one_request:
  "c (simple_request t) = chat_completion e (simple_request t) \<Longrightarrow>
   simple_ai_extraction (e\<lparr>chat_completion := c\<rparr>) t = simple_ai_extraction e t"
  by (simp add: fun_eq_iff simple_ai_extraction_eq simple_attempt_eq)

lemma extraction_reads_two_requests:
  assumes "c (primary_request t) = chat_completion e (primary_request t)"
    and "c (simple_request t) = chat_completion e (simple_request t)"
  shows "process_transcript_with_ai (e\<lparr>chat_completion := c\<rparr>) t d w =
         process_transcript_with_ai e t d w"
  using assms
  by (simp add: process_transcript_cases primary_attempt_eq simple_reads_one_request Let_def
      split: sum.splits)

text \<open>
  C6. When the completion call for the suggestions raises, or the answer has no choice to
  read, \<^verbatim>\<open>generate_improvement_suggestions\<close> returns the empty string. The prompt is
  built before the \<^verbatim>\<open>try\<close>, from the three lengths the renderer has already taken, so
  after a rendering that succeeded it is built without an exception. In a run in which
  the date, the extraction and the rendering succeeded and the suggestion call raises,
  the content that goes on is the rendered document itself, with no block appended, the
  pipeline continues into the publisher (or returns the local result), and the whole run
  equals the run in which the service answered the suggestion request with the empty
  text.
\<close>

theorem suggestion_failure_absorbed:
  "(suggestion_prompt md = Inr p
      \<and> (\<exists>x. fst (chat_content e (suggestion_request p) w) = Inl x)
    \<longrightarrow> fst (generate_improvement_suggestions e md w) = Inr [])
   \<and> (format_minutes_as_html repr md d now = Inr html \<longrightarrow> (\<exists>q. suggestion_prompt md = Inr q))
   \<and> (resolve_date e meeting_date w = (Inr date, w1)
      \<and> process_transcript_with_ai e transcript (Some date) w1 = (Inr md, w2)
      \<and> render_minutes e md date w2 = (Inr html, w3)
      \<and> suggestion_prompt md = Inr p
      \<and> (\<exists>x. fst (chat_content e (suggestion_request p) w3) = Inl x)
    \<longrightarrow> process_and_publish e self transcript meeting_date w =
          (case confluence self of
             Some publisher \<Rightarrow>
               publish e publisher md date html
                 (w3\<lparr>chat_log := chat_log w3 @ [suggestion_request p]\<rparr>)
           | None \<Rightarrow>
               (Inr \<lparr>r_meeting_data = md, r_html_content = html, r_confluence_url = None,
                     r_page_id = None, r_local_file = None, r_json_file = None\<rparr>,
                w3\<lparr>chat_log := chat_log w3 @ [suggestion_request p]\<rparr>))
        \<and> process_and_publish e self transcript meeting_date w =
          process_and_publish
            (e\<lparr>chat_completion := (chat_completion e)(suggestion_request p := Inr [[]])\<rparr>)
            self transcript meeting_date w)"
proof -
  have a: "suggestion_prompt md = Inr p
      \<and> (\<exists>x. fst (chat_content e (suggestion_request p) w) = Inl x)
    \<longrightarrow> fst (generate_improvement_suggestions e md w) = Inr []"
    by (auto simp: generate_eq chat_content_def)
  have b: "format_minutes_as_html repr md d now = Inr html \<longrightarrow> (\<exists>q. suggestion_prompt md = Inr q)"
    using render_ok_prompt_ok by blast
  have c: "process_and_publish e self transcript meeting_date w =
          (case confluence self of
             Some publisher \<Rightarrow>
               publish e publisher md date html
                 (w3\<lparr>chat_log := chat_log w3 @ [suggestion_request p]\<rparr>)
           | None \<Rightarrow>
               (Inr \<lparr>r_meeting_data = md, r_html_content = html, r_confluence_url = None,
                     r_page_id = None, r_local_file = None, r_json_file = None\<rparr>,
                w3\<lparr>chat_log := chat_log w3 @ [suggestion_request p]\<rparr>))
        \<and> process_and_publish e self transcript meeting_date w =
          process_and_publish
            (e\<lparr>chat_completion := (chat_completion e)(suggestion_request p := Inr [[]])\<rparr>)
            self transcript meeting_date w"
    if rd: "resolve_date e meeting_date w = (Inr date, w1)"
      and ex: "process_transcript_with_ai e transcript (Some date) w1 = (Inr md, w2)"
      and rn: "render_minutes e md date w2 = (Inr html, w3)"
      and pr: "suggestion_prompt md = Inr p"
      and fl: "fst (chat_content e (suggestion_request p) w3) = Inl x" for x
  proof -
    let ?e = "e\<lparr>chat_completion := (chat_completion e)(suggestion_request p := Inr [[]])\<rparr>"
    from fl have f: "bind_exn (chat_completion e (suggestion_request p)) first_content = Inl x"
      by (simp add: chat_content_def)
    have ex': "process_transcript_with_ai ?e transcript (Some date) w1 = (Inr md, w2)"
      using ex suggestion_request_differs [of p transcript, symmetric]
      by (simp add: extraction_reads_two_requests)
    have 1: "process_and_publish e self transcript meeting_date w =
          (case confluence self of
             Some publisher \<Rightarrow>
               publish e publisher md date html
                 (w3\<lparr>chat_log := chat_log w3 @ [suggestion_request p]\<rparr>)
           | None \<Rightarrow>
               (Inr \<lparr>r_meeting_data = md, r_html_content = html, r_confluence_url = None,
                     r_page_id = None, r_local_file = None, r_json_file = None\<rparr>,
                w3\<lparr>chat_log := chat_log w3 @ [suggestion_request p]\<rparr>))"
      by (simp add: process_and_publish_eq [OF rd ex rn pr] f with_suggestions_def Let_def)
    have 2: "process_and_publish ?e self transcript meeting_date w =
          (case confluence self of
             Some publisher \<Rightarrow>
               publish e publisher md date html
                 (w3\<lparr>chat_log := chat_log w3 @ [suggestion_request p]\<rparr>)
           | None \<Rightarrow>
               (Inr \<lparr>r_meeting_data = md, r_html_content = html, r_confluence_url = None,
                     r_page_id = None, r_local_file = None, r_json_file = None\<rparr>,
                w3\<lparr>chat_log := chat_log w3 @ [suggestion_request p]\<rparr>))"
      using process_and_publish_eq [of ?e meeting_date w date w1 transcript md w2 html w3 p self]
        rd ex' rn pr
      by (simp add: env_chat_irrelevant first_content_def with_suggestions_def Let_def
          split: option.splits)
    from 1 2 show ?thesis by simp
  qed
  from a b c show ?thesis by blast
qed

lemma standup_document:
  "format_minutes_as_html example_repr standup_record ''2024-01-15'' monday = Inr standup_html"
  using render_sections [OF standup_record_ok, of example_repr "''2024-01-15''" monday]
  by (simp only: standup_rendered)

lemma monday_date: "strftime_date monday = ''2024-01-15''"
  by (simp add: strftime_date_def monday_def pad2_def pad4_def str_nat.simps digit_char_def)

lemma quiet_date:
  "resolve_date quiet_env None fresh_world = (Inr ''2024-01-15'', fresh_world\<lparr>ticks := 1\<rparr>)"
  by (simp add: resolve_date_def datetime_now_def bind_io_def pure_io_def quiet_env_def
      office_env_def monday_date fresh_world_def)

lemma quiet_extracted:
  "process_transcript_with_ai quiet_env transcript_text (Some ''2024-01-15'') w =
   (Inr standup_record, w\<lparr>chat_log := chat_log w @ [primary_request transcript_text]\<rparr>)"
  by (simp add: process_transcript_cases primary_attempt_eq Let_def not_given_def quiet_env_def
      quiet_chat_def office_env_def primary_request_def first_content_def py_json_loads_def
      office_loads_def)

lemma quiet_rendered:
  "render_minutes quiet_env standup_record ''2024-01-15'' w =
   (Inr standup_html, w\<lparr>ticks := Suc (ticks w)\<rparr>)"
  by (simp add: render_minutes_def datetime_now_def bind_io_def pure_io_def quiet_env_def
      office_env_def standup_document)

lemma standup_prompt: "suggestion_prompt standup_record = Inr (suggestion_text 2 0 3)"
  by (simp add: suggestion_prompt_def field_len_def standup_record_def py_get_obj py_len_def
      numeral_3_eq_3 numeral_2_eq_2)

lemma quiet_refused:
  "fst (chat_content quiet_env (suggestion_request p) w) =
   Inl (OtherError ''openai.error.RateLimitError'')"
  by (simp add: chat_content_def quiet_env_def quiet_chat_def office_env_def
      suggestion_request_def)

lemma office_published:
  "requests_get e = requests_get office_env \<Longrightarrow> requests_put e = requests_put office_env \<Longrightarrow>
   py_repr e = example_repr \<Longrightarrow>
   fst (publish e example_publisher md ''2024-01-15'' html w) =
   Inr \<lparr>r_meeting_data = md, r_html_content = html,
        r_confluence_url = Some ''https://wiki.example.com/spaces/ENG/pages/98765'',
        r_page_id = Some (JStr ''98765''), r_local_file = None, r_json_file = None\<rparr>"
  by (simp add: publish_def find_page_by_title_def send_def bind_io_def pure_io_def
      office_env_def found_page_def ok_response_def py_item_def py_truthy_def py_first_def
      page_v3_def create_or_update_def update_page_def py_add1_def page_result_def
      page_answer_def fmt_def example_publisher_def new_publisher_def example_config_def
      rstrip_slash_def Let_def)


theorem suggestion_failure_absorbed_witness:
  "suggestion_prompt standup_record = Inr (suggestion_text 2 0 3)
   \<and> fst (chat_content quiet_env (suggestion_request (suggestion_text 2 0 3)) fresh_world) =
       Inl (OtherError ''openai.error.RateLimitError'')
   \<and> fst (generate_improvement_suggestions quiet_env standup_record fresh_world) = Inr []
   \<and> format_minutes_as_html example_repr standup_record ''2024-01-15'' monday = Inr standup_html
   \<and> fst (process_and_publish quiet_env publishing_generator transcript_text None fresh_world) =
       Inr \<lparr>r_meeting_data = standup_record, r_html_content = standup_html,
            r_confluence_url = Some ''https://wiki.example.com/spaces/ENG/pages/98765'',
            r_page_id = Some (JStr ''98765''), r_local_file = None, r_json_file = None\<rparr>
   \<and> fst (process_and_publish quiet_env local_generator transcript_text None fresh_world) =
       Inr \<lparr>r_meeting_data = standup_record, r_html_content = standup_html,
            r_confluence_url = None, r_page_id = None, r_local_file = None, r_json_file = None\<rparr>
   \<and> process_and_publish quiet_env publishing_generator transcript_text None fresh_world =
       process_and_publish
         (quiet_env\<lparr>chat_completion :=
            (chat_completion quiet_env)(suggestion_request (suggestion_text 2 0 3) := Inr [[]])\<rparr>)
         publishing_generator transcript_text None fresh_world"
proof -
  let ?p = "suggestion_text 2 0 3"
  let ?w1 = "fresh_world\<lparr>ticks := 1\<rparr>"
  let ?w2 = "?w1\<lparr>chat_log := chat_log ?w1 @ [primary_request transcript_text]\<rparr>"
  let ?w3 = "?w2\<lparr>ticks := Suc (ticks ?w2)\<rparr>"
  have env: "requests_get quiet_env = requests_get office_env"
    "requests_put quiet_env = requests_put office_env" "py_repr quiet_env = example_repr"
    by (simp_all add: quiet_env_def office_env_def)
  note a = suggestion_failure_absorbed
    [where md = standup_record and p = ?p and e = quiet_env and w = fresh_world
       and repr = example_repr and d = "''2024-01-15''" and now = monday and html = standup_html
       and meeting_date = None and date = "''2024-01-15''" and ?w1.0 = ?w1
       and transcript = transcript_text and ?w2.0 = ?w2 and ?w3.0 = ?w3
       and self = publishing_generator]
  note b = suggestion_failure_absorbed
    [where md = standup_record and p = ?p and e = quiet_env and w = fresh_world
       and repr = example_repr and d = "''2024-01-15''" and now = monday and html = standup_html
       and meeting_date = None and date = "''2024-01-15''" and ?w1.0 = ?w1
       and transcript = transcript_text and ?w2.0 = ?w2 and ?w3.0 = ?w3
       and self = local_generator]
  have hyps: "resolve_date quiet_env None fresh_world = (Inr ''2024-01-15'', ?w1)
      \<and> process_transcript_with_ai quiet_env transcript_text (Some ''2024-01-15'') ?w1 =
          (Inr standup_record, ?w2)
      \<and> render_minutes quiet_env standup_record ''2024-01-15'' ?w2 = (Inr standup_html, ?w3)
      \<and> suggestion_prompt standup_record = Inr ?p
      \<and> (\<exists>x. fst (chat_content quiet_env (suggestion_request ?p) ?w3) = Inl x)"
    using quiet_date quiet_extracted [of ?w1] quiet_rendered [of ?w2] standup_prompt
      quiet_refused
    by simp
  have gen: "fst (generate_improvement_suggestions quiet_env standup_record fresh_world) = Inr []"
    using a standup_prompt quiet_refused by simp
  note a3 = a [THEN conjunct2, THEN conjunct2, THEN mp, OF hyps]
  note b3 = b [THEN conjunct2, THEN conjunct2, THEN mp, OF hyps]
  have pub:
    "process_and_publish quiet_env publishing_generator transcript_text None fresh_world =
       publish quiet_env example_publisher standup_record ''2024-01-15'' standup_html
         (?w3\<lparr>chat_log := chat_log ?w3 @ [suggestion_request ?p]\<rparr>)"
    using a3 [THEN conjunct1] by (simp add: publishing_generator_def)
  note same = a3 [THEN conjunct2]
  have loc:
    "process_and_publish quiet_env local_generator transcript_text None fresh_world =
       (Inr \<lparr>r_meeting_data = standup_record, r_html_content = standup_html,
              r_confluence_url = None, r_page_id = None, r_local_file = None,
              r_json_file = None\<rparr>,
        ?w3\<lparr>chat_log := chat_log ?w3 @ [suggestion_request ?p]\<rparr>)"
    using b3 [THEN conjunct1] by (simp add: local_generator_def)
  have published:
    "fst (process_and_publish quiet_env publishing_generator transcript_text None fresh_world) =
       Inr \<lparr>r_meeting_data = standup_record, r_html_content = standup_html,
            r_confluence_url = Some ''https://wiki.example.com/spaces/ENG/pages/98765'',
            r_page_id = Some (JStr ''98765''), r_local_file = None, r_json_file = None\<rparr>"
    by (simp add: pub office_published [OF env])
  have kept:
    "fst (process_and_publish quiet_env local_generator transcript_text None fresh_world) =
       Inr \<lparr>r_meeting_data = standup_record, r_html_content = standup_html,
            r_confluence_url = None, r_page_id = None, r_local_file = None, r_json_file = None\<rparr>"
    by (simp add: loc)
  show ?thesis
    by (intro conjI)
       (rule standup_prompt quiet_refused gen standup_document published kept same)+
qed

subsection \<open>Publishing\<close>

lemma find_page_eq:
  "find_page_by_title e self title w =
   (bind_exn (requests_get e (find_request self title)) found_page,
    w\<lparr>http_log := http_log w @ [find_request self title]\<rparr>)"
  by (cases "requests_get e (find_request self title)")
     (simp_all add: find_page_by_title_def send_def bind_io_def pure_io_def)

lemma create_page_eq:
  "create_page e self title content parent_id w =
   (bind_exn (requests_post e (create_request self title content parent_id)) page_result,
    w\<lparr>http_log := http_log w @ [create_request self title content parent_id]\<rparr>)"
  by (cases "requests_post e (create_request self title content parent_id)")
     (simp_all add: create_page_def send_def bind_io_def pure_io_def)

lemma update_page_eq:
  "update_page e self page_id title content (JInt n) w =
   (bind_exn (requests_put e (update_request e self page_id title content (JInt (n + 1))))
      page_result,
    w\<lparr>http_log := http_log w @ [update_request e self page_id title content (JInt (n + 1))]\<rparr>)"
  by (cases "requests_put e (update_request e self page_id title content (JInt (n + 1)))")
     (simp_all add: update_page_def py_add1_def send_def bind_io_def pure_io_def)

lemma snd_bind_pure: "snd (bind_io f (\<lambda>a. pure_io (g a)) w) = snd (f w)"
  by (simp add: bind_io_def pure_io_def split: prod.splits sum.splits)

lemma py_item_truthy: "py_item page k = Inr v \<Longrightarrow> py_truthy page"
  by (auto simp: py_item_def py_truthy_def split: json.splits option.splits)

lemma publish_log:
  "snd (publish e self md date html w) =
   (case find_page_by_title e self (page_title date) w of
      (Inl x, w1) \<Rightarrow> w1
    | (Inr existing_page, w1) \<Rightarrow>
        snd (create_or_update e self (page_title date) html existing_page w1))"
  by (simp add: publish_def Let_def bind_io_def pure_io_def split: prod.splits sum.splits)

lemma create_payload_no_version:
  "\<not> has_key ''version'' (create_payload self title content parent_id)"
  by (simp add: create_payload_def Let_def storage_body_def split: option.splits)

text \<open>
  C1. The publisher looks the title up and then sends exactly one more request. When the
  lookup returns a page that has an \<^verbatim>\<open>id\<close> and whose \<^verbatim>\<open>version.number\<close> is the integer
  \<open>n\<close>, that request is the update (a PUT) whose payload has \<open>n + 1\<close> under
  \<^verbatim>\<open>version.number\<close>. When the lookup returns \<^verbatim>\<open>None\<close> (or a page that is an empty
  dictionary), that request is the create (a POST) of the same title and content with
  no parent given. The payload of a create request has no key \<^verbatim>\<open>version\<close> at any
  depth, whatever the title, the content and the parent.
\<close>

theorem update_carries_next_version:
  "(find_page_by_title e self (page_title date) w = (Inr (Some page), w1)
      \<and> py_item page ''id'' = Inr page_id
      \<and> bind_exn (py_item page ''version'') (\<lambda>v. py_item v ''number'') = Inr (JInt n)
    \<longrightarrow> sent w (snd (publish e self md date html w)) =
          [find_request self (page_title date),
           update_request e self page_id (page_title date) html (JInt (n + 1))]
        \<and> req_json (update_request e self page_id (page_title date) html (JInt (n + 1))) =
            Some (update_payload (page_title date) html (JInt (n + 1)))
        \<and> py_item (update_payload (page_title date) html (JInt (n + 1))) ''version'' =
            Inr (JObj [(''number'', JInt (n + 1))]))
   \<and> (find_page_by_title e self (page_title date) w = (Inr existing_page, w1)
      \<and> (case existing_page of None \<Rightarrow> True | Some page \<Rightarrow> \<not> py_truthy page)
    \<longrightarrow> sent w (snd (publish e self md date html w)) =
          [find_request self (page_title date),
           create_request self (page_title date) html None])
   \<and> req_json (create_request self title content parent_id) =
       Some (create_payload self title content parent_id)
   \<and> \<not> has_key ''version'' (create_payload self title content parent_id)"
proof -
  have upd: "sent w (snd (publish e self md date html w)) =
          [find_request self (page_title date),
           update_request e self page_id (page_title date) html (JInt (n + 1))]"
    if f: "find_page_by_title e self (page_title date) w = (Inr (Some page), w1)"
      and i: "py_item page ''id'' = Inr page_id"
      and v: "bind_exn (py_item page ''version'') (\<lambda>v. py_item v ''number'') = Inr (JInt n)"
  proof -
    from f have w1: "w1 = w\<lparr>http_log := http_log w @ [find_request self (page_title date)]\<rparr>"
      by (simp add: find_page_eq)
    from i have t: "py_truthy page" by (rule py_item_truthy)
    show ?thesis
      by (simp add: publish_log f create_or_update_def t i v update_page_eq w1 sent_def)
  qed
  have crt: "sent w (snd (publish e self md date html w)) =
          [find_request self (page_title date),
           create_request self (page_title date) html None]"
    if f: "find_page_by_title e self (page_title date) w = (Inr existing_page, w1)"
      and n: "case existing_page of None \<Rightarrow> True | Some page \<Rightarrow> \<not> py_truthy page"
  proof -
    from f have w1: "w1 = w\<lparr>http_log := http_log w @ [find_request self (page_title date)]\<rparr>"
      by (simp add: find_page_eq)
    from n show ?thesis
      by (simp add: publish_log f create_or_update_def create_page_eq w1 sent_def
          split: option.splits)
  qed
  have pl: "py_item (update_payload (page_title date) html (JInt (n + 1))) ''version'' =
            Inr (JObj [(''number'', JInt (n + 1))])"
    by (simp add: update_payload_def py_item_def)
  show ?thesis
    using upd crt pl create_payload_no_version
    by (simp add: update_request_def create_request_def)
qed


lemma office_run:
  assumes "chat_completion e = office_chat" and "json_loads e = office_loads"
    and "py_repr e = example_repr" and "clock e = (\<lambda>n. monday)"
  shows "process_and_publish e self transcript_text None fresh_world =
    (case confluence self of
       Some publisher \<Rightarrow> publish e publisher standup_record ''2024-01-15'' standup_page before_publish
     | None \<Rightarrow>
         (Inr \<lparr>r_meeting_data = standup_record, r_html_content = standup_page,
                r_confluence_url = None, r_page_id = None, r_local_file = None,
                r_json_file = None\<rparr>, before_publish))"
proof -
  have rd: "resolve_date e None fresh_world = (Inr ''2024-01-15'', fresh_world\<lparr>ticks := 1\<rparr>)"
    by (simp add: resolve_date_def datetime_now_def bind_io_def pure_io_def assms monday_date
        fresh_world_def)
  have ex: "process_transcript_with_ai e transcript_text (Some ''2024-01-15'')
        (fresh_world\<lparr>ticks := 1\<rparr>) =
      (Inr standup_record,
       fresh_world\<lparr>ticks := 1, chat_log := [primary_request transcript_text]\<rparr>)"
    by (simp add: process_transcript_cases primary_attempt_eq Let_def not_given_def assms
        office_chat_def primary_request_def first_content_def py_json_loads_def
        office_loads_def fresh_world_def)
  have rn: "render_minutes e standup_record ''2024-01-15''
        (fresh_world\<lparr>ticks := 1, chat_log := [primary_request transcript_text]\<rparr>) =
      (Inr standup_html,
       fresh_world\<lparr>ticks := 2, chat_log := [primary_request transcript_text]\<rparr>)"
    by (simp add: render_minutes_def datetime_now_def bind_io_def pure_io_def assms
        standup_document fresh_world_def)
  show ?thesis
    unfolding process_and_publish_eq [OF rd ex rn standup_prompt, of self]
    by (simp add: assms office_chat_def suggestion_request_def first_content_def
        with_suggestions_def Let_def standup_page_def before_publish_def fresh_world_def
        split: option.splits)
qed


lemma office_found:
  "find_page_by_title office_env example_publisher (page_title ''2024-01-15'') before_publish =
   (Inr (Some page_v3),
    before_publish\<lparr>http_log := [find_request example_publisher (page_title ''2024-01-15'')]\<rparr>)"
  by (simp add: find_page_eq office_env_def found_page_def ok_response_def py_item_def
      py_truthy_def py_first_def before_publish_def)

lemma new_page_not_found:
  "find_page_by_title new_page_env example_publisher (page_title ''2024-01-15'') before_publish =
   (Inr None,
    before_publish\<lparr>http_log := [find_request example_publisher (page_title ''2024-01-15'')]\<rparr>)"
  by (simp add: find_page_eq new_page_env_def office_env_def found_page_def ok_response_def
      py_item_def py_truthy_def before_publish_def)

lemma page_v3_fields:
  "py_item page_v3 ''id'' = Inr (JStr ''98765'')"
  "bind_exn (py_item page_v3 ''version'') (\<lambda>v. py_item v ''number'') = Inr (JInt 3)"
  by (simp_all add: page_v3_def py_item_def)

lemma office_env_fields:
  "chat_completion office_env = office_chat" "json_loads office_env = office_loads"
  "py_repr office_env = example_repr" "clock office_env = (\<lambda>n. monday)"
  "chat_completion new_page_env = office_chat" "json_loads new_page_env = office_loads"
  "py_repr new_page_env = example_repr" "clock new_page_env = (\<lambda>n. monday)"
  by (simp_all add: office_env_def new_page_env_def)

theorem update_carries_next_version_witness:
  "find_page_by_title office_env example_publisher (page_title ''2024-01-15'') before_publish =
     (Inr (Some page_v3),
      before_publish\<lparr>http_log := [find_request example_publisher (page_title ''2024-01-15'')]\<rparr>)
   \<and> bind_exn (py_item page_v3 ''version'') (\<lambda>v. py_item v ''number'') = Inr (JInt 3)
   \<and> sent fresh_world
        (snd (process_and_publish office_env publishing_generator transcript_text None fresh_world)) =
       [find_request example_publisher ''Stand-up Minutes - 2024-01-15'',
        update_request office_env example_publisher (JStr ''98765'')
          ''Stand-up Minutes - 2024-01-15'' standup_page (JInt 4)]
   \<and> py_item (update_payload ''Stand-up Minutes - 2024-01-15'' standup_page (JInt 4)) ''version'' =
       Inr (JObj [(''number'', JInt 4)])
   \<and> find_page_by_title new_page_env example_publisher (page_title ''2024-01-15'') before_publish =
     (Inr None,
      before_publish\<lparr>http_log := [find_request example_publisher (page_title ''2024-01-15'')]\<rparr>)
   \<and> sent fresh_world
        (snd (process_and_publish new_page_env publishing_generator transcript_text None fresh_world)) =
       [find_request example_publisher ''Stand-up Minutes - 2024-01-15'',
        create_request example_publisher ''Stand-up Minutes - 2024-01-15'' standup_page None]
   \<and> \<not> has_key ''version''
         (create_payload example_publisher ''Stand-up Minutes - 2024-01-15'' standup_page None)"
proof -
  let ?w1 = "before_publish\<lparr>http_log := [find_request example_publisher (page_title ''2024-01-15'')]\<rparr>"
  note a = update_carries_next_version
    [where e = office_env and self = example_publisher and date = "''2024-01-15''"
       and w = before_publish and page = page_v3 and ?w1.0 = ?w1 and page_id = "JStr ''98765''"
       and n = 3 and md = standup_record and html = standup_page and existing_page = None
       and title = "''Stand-up Minutes - 2024-01-15''" and content = standup_page
       and parent_id = None]
  note b = update_carries_next_version
    [where e = new_page_env and self = example_publisher and date = "''2024-01-15''"
       and w = before_publish and page = page_v3 and ?w1.0 = ?w1 and page_id = "JStr ''98765''"
       and n = 3 and md = standup_record and html = standup_page and existing_page = None
       and title = "''Stand-up Minutes - 2024-01-15''" and content = standup_page
       and parent_id = None]
  have log: "sent fresh_world w = sent before_publish w" for w
    by (simp add: sent_def fresh_world_def before_publish_def)
  have upd: "sent fresh_world
        (snd (process_and_publish office_env publishing_generator transcript_text None fresh_world)) =
       [find_request example_publisher ''Stand-up Minutes - 2024-01-15'',
        update_request office_env example_publisher (JStr ''98765'')
          ''Stand-up Minutes - 2024-01-15'' standup_page (JInt 4)]"
    using a [THEN conjunct1] office_found page_v3_fields
    by (simp add: office_run office_env_fields publishing_generator_def log page_title_def)
  have pl: "py_item (update_payload ''Stand-up Minutes - 2024-01-15'' standup_page (JInt 4)) ''version'' =
       Inr (JObj [(''number'', JInt 4)])"
    using a [THEN conjunct1] office_found page_v3_fields
    by (simp add: page_title_def)
  have crt: "sent fresh_world
        (snd (process_and_publish new_page_env publishing_generator transcript_text None fresh_world)) =
       [find_request example_publisher ''Stand-up Minutes - 2024-01-15'',
        create_request example_publisher ''Stand-up Minutes - 2024-01-15'' standup_page None]"
    using b [THEN conjunct2, THEN conjunct1] new_page_not_found
    by (simp add: office_run office_env_fields publishing_generator_def log page_title_def)
  note nv = a [THEN conjunct2, THEN conjunct2, THEN conjunct2]
  show ?thesis
    by (intro conjI)
       (rule office_found page_v3_fields upd pl new_page_not_found crt nv)+
qed

lemma process_and_publish_stages:
  assumes "resolve_date e meeting_date w = (Inr date, w1)"
    and "process_transcript_with_ai e transcript (Some date) w1 = (Inr md, w2)"
    and "render_minutes e md date w2 = (Inr html, w3)"
    and "generate_improvement_suggestions e md w3 = (Inr suggestions, w4)"
  shows "process_and_publish e self transcript meeting_date w =
    (case confluence self of
       Some publisher \<Rightarrow> publish e publisher md date (with_suggestions html suggestions) w4
     | None \<Rightarrow>
         (Inr \<lparr>r_meeting_data = md, r_html_content = with_suggestions html suggestions,
                r_confluence_url = None, r_page_id = None, r_local_file = None,
                r_json_file = None\<rparr>, w4))"
  using assms
  by (simp add: process_and_publish_def Let_def pure_io_def split: option.splits)

lemma resolve_date_http [simp]: "http_log (snd (resolve_date e d w)) = http_log w"
  by (simp add: resolve_date_def datetime_now_def bind_io_def pure_io_def split: option.splits)

lemma process_transcript_http [simp]:
  "http_log (snd (process_transcript_with_ai e t d w)) = http_log w"
  by (simp add: process_transcript_cases simple_ai_extraction_eq Let_def datetime_now_def
      split: sum.splits)

lemma render_minutes_http [simp]: "http_log (snd (render_minutes e md d w)) = http_log w"
  by (simp add: render_minutes_def datetime_now_def bind_io_def pure_io_def)

lemma generate_http [simp]:
  "http_log (snd (generate_improvement_suggestions e md w)) = http_log w"
proof (cases "suggestion_prompt md")
  case (Inl x)
  then show ?thesis by (simp add: generate_improvement_suggestions_def)
next
  case (Inr p)
  then show ?thesis by (simp add: generate_eq)
qed

lemma stages_http_log:
  assumes "resolve_date e meeting_date w = (r1, w1)"
    and "process_transcript_with_ai e transcript d w1 = (r2, w2)"
    and "render_minutes e md date w2 = (r3, w3)"
    and "generate_improvement_suggestions e md w3 = (r4, w4)"
  shows "http_log w4 = http_log w"
proof -
  have "http_log w1 = http_log w" using resolve_date_http [of e meeting_date w] assms(1) by simp
  moreover have "http_log w2 = http_log w1"
    using process_transcript_http [of e transcript d w1] assms(2) by simp
  moreover have "http_log w3 = http_log w2"
    using render_minutes_http [of e md date w2] assms(3) by simp
  moreover have "http_log w4 = http_log w3"
    using generate_http [of e md w3] assms(4) by simp
  ultimately show ?thesis by simp
qed

lemma create_or_update_absent:
  "(case existing_page of None \<Rightarrow> True | Some page \<Rightarrow> \<not> py_truthy page) \<Longrightarrow>
   create_or_update e self title content existing_page w = create_page e self title content None w"
  by (simp add: create_or_update_def split: option.splits)

lemma create_or_update_found:
  "py_item page ''id'' = Inr page_id \<Longrightarrow>
   bind_exn (py_item page ''version'') (\<lambda>v. py_item v ''number'') = Inr number \<Longrightarrow>
   create_or_update e self title content (Some page) w =
   update_page e self page_id title content number w"
  by (simp add: create_or_update_def py_item_truthy)

subsection \<open>Local copies\<close>

lemma bind_io_local:
  assumes "\<And>w. local_state (snd (f w)) = local_state w"
    and "\<And>a w. local_state (snd (g a w)) = local_state w"
  shows "local_state (snd (bind_io f g w)) = local_state w"
proof (cases "f w")
  case (Pair r w')
  with assms(1) [of w] have w': "local_state w' = local_state w" by simp
  show ?thesis
  proof (cases r)
    case (Inl x)
    with Pair w' show ?thesis by (simp add: bind_io_def)
  next
    case (Inr a)
    with Pair w' assms(2) [of a w'] show ?thesis by (simp add: bind_io_def)
  qed
qed

lemma pure_io_local [simp]: "local_state (snd (pure_io r w)) = local_state w"
  by (simp add: pure_io_def)

lemma datetime_now_local [simp]: "local_state (snd (datetime_now e w)) = local_state w"
  by (simp add: datetime_now_def local_state_def)

lemma chat_content_local [simp]: "local_state (snd (chat_content e req w)) = local_state w"
  by (simp add: chat_content_def local_state_def)

lemma send_local [simp]: "local_state (snd (send f req w)) = local_state w"
  by (simp add: send_def local_state_def)

lemma resolve_date_local [simp]: "local_state (snd (resolve_date e d w)) = local_state w"
  by (simp add: resolve_date_def bind_io_local split: option.splits)

lemma simple_ai_extraction_local [simp]:
  "local_state (snd (simple_ai_extraction e t w)) = local_state w"
  by (simp add: simple_ai_extraction_eq local_state_def)

lemma process_transcript_local [simp]:
  "local_state (snd (process_transcript_with_ai e t d w)) = local_state w"
  by (simp add: process_transcript_cases Let_def split: sum.splits)
     (simp add: local_state_def datetime_now_def)

lemma render_minutes_local [simp]: "local_state (snd (render_minutes e md d w)) = local_state w"
  by (simp add: render_minutes_def bind_io_local)

lemma generate_local [simp]:
  "local_state (snd (generate_improvement_suggestions e md w)) = local_state w"
proof (cases "suggestion_prompt md")
  case (Inl x)
  then show ?thesis by (simp add: generate_improvement_suggestions_def)
next
  case (Inr p)
  then show ?thesis by (simp add: generate_eq local_state_def)
qed

lemma find_page_local [simp]: "local_state (snd (find_page_by_title e self t w)) = local_state w"
  by (simp add: find_page_eq local_state_def)

lemma create_page_local [simp]:
  "local_state (snd (create_page e self t c p w)) = local_state w"
  by (simp add: create_page_eq local_state_def)

lemma update_page_local [simp]:
  "local_state (snd (update_page e self i t c v w)) = local_state w"
  by (simp add: update_page_def bind_io_local del: bind_io_pure)

lemma create_or_update_local [simp]:
  "local_state (snd (create_or_update e self t c x w)) = local_state w"
  by (simp add: create_or_update_def bind_io_local del: bind_io_pure split: option.splits)

lemma publish_local [simp]:
  "local_state (snd (publish e self md d html w)) = local_state w"
  by (simp add: publish_def Let_def bind_io_local del: bind_io_pure)

lemma process_and_publish_local:
  "local_state (snd (process_and_publish e self t d w)) = local_state w"
  unfolding process_and_publish_def
  by (intro bind_io_local) (simp_all add: Let_def split: option.splits)


lemma page_result_error:
  "status_code response \<noteq> 200 \<Longrightarrow>
   page_result response = Inl (Exception (''Confluence API error: '' @ str_nat (status_code response)))"
  by (simp add: page_result_def)

lemma publish_raises:
  assumes "find_page_by_title e self (page_title date) w = (Inr existing_page, w1)"
    and "fst (create_or_update e self (page_title date) html existing_page w1) = Inl x"
  shows "fst (publish e self md date html w) = Inl x"
  using assms
  by (cases "create_or_update e self (page_title date) html existing_page w1")
     (simp add: publish_def Let_def)

lemma process_file_raises:
  assumes "read_input e input_file = Inr transcript"
    and "fst (process_and_publish e self transcript None w) = Inl x"
  shows "process_file e self input_file output_dir w =
         (Inl x, snd (process_and_publish e self transcript None w))"
  using assms
  by (cases "process_and_publish e self transcript None w") (simp add: process_file_def)

text \<open>
  C9. \<^verbatim>\<open>create_page\<close> and \<^verbatim>\<open>update_page\<close> raise
  \<^verbatim>\<open>Exception("Confluence API error: <status>")\<close> when the status of the response is
  not 200. The publisher calls \<^verbatim>\<open>create_page\<close> when the lookup returned no page and
  \<^verbatim>\<open>update_page\<close> when it returned one, and an exception of that call is the result of
  the publisher. In a run of \<^verbatim>\<open>process_and_publish\<close> in which the date, the
  extraction, the rendering and the suggestions returned and a publisher is configured,
  the run is the call of the publisher on the document, so an exception of the create
  or the update is raised by \<^verbatim>\<open>process_and_publish\<close>. When \<^verbatim>\<open>process_and_publish\<close>
  raises, \<^verbatim>\<open>process_file\<close> raises the same exception, and the local files and
  directories are what they were before the call, whether or not an output directory is
  given: the local copies are written only after \<^verbatim>\<open>process_and_publish\<close> has
  returned. The last part states the whole chain for \<^verbatim>\<open>process_file\<close>.
\<close>

theorem publish_failure_writes_nothing:
  "(requests_post e (create_request self title content parent_id) = Inr response
      \<and> status_code response \<noteq> 200
    \<longrightarrow> fst (create_page e self title content parent_id w) =
          Inl (Exception (''Confluence API error: '' @ str_nat (status_code response))))
   \<and> (requests_put e (update_request e self page_id title content (JInt (n + 1))) = Inr response
      \<and> status_code response \<noteq> 200
    \<longrightarrow> fst (update_page e self page_id title content (JInt n) w) =
          Inl (Exception (''Confluence API error: '' @ str_nat (status_code response))))
   \<and> ((case existing_page of None \<Rightarrow> True | Some page \<Rightarrow> \<not> py_truthy page)
    \<longrightarrow> create_or_update e self title content existing_page w =
          create_page e self title content None w)
   \<and> (py_item page ''id'' = Inr page_id
      \<and> bind_exn (py_item page ''version'') (\<lambda>v. py_item v ''number'') = Inr (JInt n)
    \<longrightarrow> create_or_update e self title content (Some page) w =
          update_page e self page_id title content (JInt n) w)
   \<and> (find_page_by_title e self (page_title date) w = (Inr existing_page, w1)
      \<and> fst (create_or_update e self (page_title date) html existing_page w1) = Inl x
    \<longrightarrow> fst (publish e self md date html w) = Inl x)
   \<and> (resolve_date e meeting_date w = (Inr date, w1)
      \<and> process_transcript_with_ai e transcript (Some date) w1 = (Inr md, w2)
      \<and> render_minutes e md date w2 = (Inr html, w3)
      \<and> generate_improvement_suggestions e md w3 = (Inr suggestions, w4)
      \<and> confluence generator = Some self
    \<longrightarrow> process_and_publish e generator transcript meeting_date w =
          publish e self md date (with_suggestions html suggestions) w4)
   \<and> (resolve_date e meeting_date w = (Inr date, w1)
      \<and> process_transcript_with_ai e transcript (Some date) w1 = (Inr md, w2)
      \<and> render_minutes e md date w2 = (Inr html, w3)
      \<and> generate_improvement_suggestions e md w3 = (Inr suggestions, w4)
      \<and> confluence generator = Some self
      \<and> find_page_by_title e self (page_title date) w4 = (Inr existing_page, w5)
      \<and> fst (create_or_update e self (page_title date) (with_suggestions html suggestions)
                existing_page w5) = Inl x
    \<longrightarrow> fst (process_and_publish e generator transcript meeting_date w) = Inl x)
   \<and> (read_input e input_file = Inr transcript
      \<and> fst (process_and_publish e generator transcript None w) = Inl x
    \<longrightarrow> fst (process_file e generator input_file output_dir w) = Inl x
        \<and> files (snd (process_file e generator input_file output_dir w)) = files w
        \<and> dirs (snd (process_file e generator input_file output_dir w)) = dirs w)
   \<and> (read_input e input_file = Inr transcript
      \<and> resolve_date e None w = (Inr date, w1)
      \<and> process_transcript_with_ai e transcript (Some date) w1 = (Inr md, w2)
      \<and> render_minutes e md date w2 = (Inr html, w3)
      \<and> generate_improvement_suggestions e md w3 = (Inr suggestions, w4)
      \<and> confluence generator = Some self
      \<and> find_page_by_title e self (page_title date) w4 = (Inr existing_page, w5)
      \<and> fst (create_or_update e self (page_title date) (with_suggestions html suggestions)
                existing_page w5) = Inl x
    \<longrightarrow> fst (process_file e generator input_file output_dir w) = Inl x
        \<and> files (snd (process_file e generator input_file output_dir w)) = files w
        \<and> dirs (snd (process_file e generator input_file output_dir w)) = dirs w)"
proof -
  have run: "process_and_publish e generator transcript md0 w =
          publish e self md date (with_suggestions html suggestions) w4"
    if "resolve_date e md0 w = (Inr date, w1)"
      "process_transcript_with_ai e transcript (Some date) w1 = (Inr md, w2)"
      "render_minutes e md date w2 = (Inr html, w3)"
      "generate_improvement_suggestions e md w3 = (Inr suggestions, w4)"
      "confluence generator = Some self" for md0
    using process_and_publish_stages [OF that(1-4), of generator] that(5) by simp
  have raised: "fst (process_and_publish e generator transcript md0 w) = Inl x"
    if "resolve_date e md0 w = (Inr date, w1)"
      "process_transcript_with_ai e transcript (Some date) w1 = (Inr md, w2)"
      "render_minutes e md date w2 = (Inr html, w3)"
      "generate_improvement_suggestions e md w3 = (Inr suggestions, w4)"
      "confluence generator = Some self"
      "find_page_by_title e self (page_title date) w4 = (Inr existing_page, w5)"
      "fst (create_or_update e self (page_title date) (with_suggestions html suggestions)
              existing_page w5) = Inl x" for md0
    using run [OF that(1-5)] publish_raises [OF that(6,7)] by simp
  have unchanged: "fst (process_file e generator input_file output_dir w) = Inl x
        \<and> files (snd (process_file e generator input_file output_dir w)) = files w
        \<and> dirs (snd (process_file e generator input_file output_dir w)) = dirs w"
    if "read_input e input_file = Inr transcript"
      and "fst (process_and_publish e generator transcript None w) = Inl x"
  proof -
    have "local_state (snd (process_file e generator input_file output_dir w)) = local_state w"
      using process_file_raises [OF that] by (simp add: process_and_publish_local)
    then show ?thesis
      using process_file_raises [OF that] by (simp add: local_state_def)
  qed
  have c1: "(requests_post e (create_request self title content parent_id) = Inr response
        \<and> status_code response \<noteq> 200
      \<longrightarrow> fst (create_page e self title content parent_id w) =
            Inl (Exception (''Confluence API error: '' @ str_nat (status_code response))))"
    by (simp add: create_page_eq page_result_error)
  have c2: "(requests_put e (update_request e self page_id title content (JInt (n + 1))) = Inr response
        \<and> status_code response \<noteq> 200
      \<longrightarrow> fst (update_page e self page_id title content (JInt n) w) =
            Inl (Exception (''Confluence API error: '' @ str_nat (status_code response))))"
    by (simp add: update_page_eq page_result_error)
  have c3: "((case existing_page of None \<Rightarrow> True | Some page \<Rightarrow> \<not> py_truthy page)
      \<longrightarrow> create_or_update e self title content existing_page w =
            create_page e self title content None w)"
    using create_or_update_absent [of existing_page e self title content w] by blast
  have c4: "(py_item page ''id'' = Inr page_id
        \<and> bind_exn (py_item page ''version'') (\<lambda>v. py_item v ''number'') = Inr (JInt n)
      \<longrightarrow> create_or_update e self title content (Some page) w =
            update_page e self page_id title content (JInt n) w)"
    using create_or_update_found [of page page_id "JInt n" e self title content w] by blast
  have c5: "(find_page_by_title e self (page_title date) w = (Inr existing_page, w1)
        \<and> fst (create_or_update e self (page_title date) html existing_page w1) = Inl x
      \<longrightarrow> fst (publish e self md date html w) = Inl x)"
    using publish_raises [of e self date w existing_page w1 html x md] by blast
  have c6: "(resolve_date e meeting_date w = (Inr date, w1)
        \<and> process_transcript_with_ai e transcript (Some date) w1 = (Inr md, w2)
        \<and> render_minutes e md date w2 = (Inr html, w3)
        \<and> generate_improvement_suggestions e md w3 = (Inr suggestions, w4)
        \<and> confluence generator = Some self
      \<longrightarrow> process_and_publish e generator transcript meeting_date w =
            publish e self md date (with_suggestions html suggestions) w4)"
    using run by blast
  have c7: "(resolve_date e meeting_date w = (Inr date, w1)
        \<and> process_transcript_with_ai e transcript (Some date) w1 = (Inr md, w2)
        \<and> render_minutes e md date w2 = (Inr html, w3)
        \<and> generate_improvement_suggestions e md w3 = (Inr suggestions, w4)
        \<and> confluence generator = Some self
        \<and> find_page_by_title e self (page_title date) w4 = (Inr existing_page, w5)
        \<and> fst (create_or_update e self (page_title date) (with_suggestions html suggestions)
                  existing_page w5) = Inl x
      \<longrightarrow> fst (process_and_publish e generator transcript meeting_date w) = Inl x)"
    using raised by blast
  have c8: "(read_input e input_file = Inr transcript
        \<and> fst (process_and_publish e generator transcript None w) = Inl x
      \<longrightarrow> fst (process_file e generator input_file output_dir w) = Inl x
          \<and> files (snd (process_file e generator input_file output_dir w)) = files w
          \<and> dirs (snd (process_file e generator input_file output_dir w)) = dirs w)"
    using unchanged by blast
  have c9: "(read_input e input_file = Inr transcript
        \<and> resolve_date e None w = (Inr date, w1)
        \<and> process_transcript_with_ai e transcript (Some date) w1 = (Inr md, w2)
        \<and> render_minutes e md date w2 = (Inr html, w3)
        \<and> generate_improvement_suggestions e md w3 = (Inr suggestions, w4)
        \<and> confluence generator = Some self
        \<and> find_page_by_title e self (page_title date) w4 = (Inr existing_page, w5)
        \<and> fst (create_or_update e self (page_title date) (with_suggestions html suggestions)
                  existing_page w5) = Inl x
      \<longrightarrow> fst (process_file e generator input_file output_dir w) = Inl x
          \<and> files (snd (process_file e generator input_file output_dir w)) = files w
          \<and> dirs (snd (process_file e generator input_file output_dir w)) = dirs w)"
    using raised [where ?md0.0 = None] unchanged by blast
  show ?thesis
    by (intro conjI) (rule c1 c2 c3 c4 c5 c6 c7 c8 c9)+
qed

lemma refusing_env_fields:
  "chat_completion refusing_env = office_chat" "json_loads refusing_env = office_loads"
  "py_repr refusing_env = example_repr" "clock refusing_env = (\<lambda>n. monday)"
  by (simp_all add: refusing_env_def new_page_env_def office_env_def)

lemma refusing_not_found:
  "find_page_by_title refusing_env example_publisher (page_title ''2024-01-15'') before_publish =
   (Inr None,
    before_publish\<lparr>http_log := [find_request example_publisher (page_title ''2024-01-15'')]\<rparr>)"
  by (simp add: find_page_eq refusing_env_def new_page_env_def office_env_def found_page_def
      ok_response_def py_item_def py_truthy_def before_publish_def)

lemma text_file_read:
  "read_input e [''transcripts'', ''standup.txt''] = read_text e [''transcripts'', ''standup.txt'']"
  by (simp add: read_input_def path_suffix_def path_name_def dot_index_def lower_def
      lower_char_def)

lemma monday_compact: "strftime_compact monday = ''20240115''"
  by (simp add: strftime_compact_def monday_def pad2_def pad4_def str_nat.simps digit_char_def)

lemma office_files:
  "dom (files (snd (process_file office_env publishing_generator [''transcripts'', ''standup.txt'']
                     (Some [''out'']) fresh_world))) =
   {[''out'', ''minutes_standup_20240115.html''], [''out'', ''minutes_standup_20240115.json'']}"
proof -
  have rd: "read_input office_env [''transcripts'', ''standup.txt''] = Inr transcript_text"
    by (simp add: text_file_read office_env_def)
  obtain w where run: "process_and_publish office_env publishing_generator transcript_text None
      fresh_world = (fst (process_and_publish office_env publishing_generator transcript_text None
      fresh_world), w)"
    by (cases "process_and_publish office_env publishing_generator transcript_text None fresh_world")
       simp
  have loc: "local_state w = local_state fresh_world"
    using process_and_publish_local
      [of office_env publishing_generator transcript_text None fresh_world] run
    by (metis snd_conv)
  have ok: "\<exists>r. fst (process_and_publish office_env publishing_generator transcript_text None
      fresh_world) = Inr r"
    by (simp add: office_run office_env_fields publishing_generator_def
        office_published [of office_env, OF refl refl office_env_fields(3)])
  then obtain r where r: "process_and_publish office_env publishing_generator transcript_text None
      fresh_world = (Inr r, w)"
    using run by auto
  have st: "path_stem [''transcripts'', ''standup.txt''] = ''standup''"
    by (simp add: path_stem_def path_name_def dot_index_def)
  from loc have fw: "files w = Map.empty" "dirs w = {}"
    by (simp_all add: local_state_def fresh_world_def)
  show ?thesis
    by (simp add: process_file_def rd r save_local_def Let_def mkdir_parents_def write_text_def
        office_env_fields monday_compact st fw) auto
qed


lemma office_stages:
  assumes "chat_completion e = office_chat" and "json_loads e = office_loads"
    and "py_repr e = example_repr" and "clock e = (\<lambda>n. monday)"
  shows "resolve_date e None fresh_world = (Inr ''2024-01-15'', fresh_world\<lparr>ticks := 1\<rparr>)"
    and "process_transcript_with_ai e transcript_text (Some ''2024-01-15'')
           (fresh_world\<lparr>ticks := 1\<rparr>) =
         (Inr standup_record,
          fresh_world\<lparr>ticks := 1, chat_log := [primary_request transcript_text]\<rparr>)"
    and "render_minutes e standup_record ''2024-01-15''
           (fresh_world\<lparr>ticks := 1, chat_log := [primary_request transcript_text]\<rparr>) =
         (Inr standup_html,
          fresh_world\<lparr>ticks := 2, chat_log := [primary_request transcript_text]\<rparr>)"
    and "generate_improvement_suggestions e standup_record
           (fresh_world\<lparr>ticks := 2, chat_log := [primary_request transcript_text]\<rparr>) =
         (Inr ''Keep the stand-up under ten minutes.'', before_publish)"
proof -
  show "resolve_date e None fresh_world = (Inr ''2024-01-15'', fresh_world\<lparr>ticks := 1\<rparr>)"
    by (simp add: resolve_date_def datetime_now_def bind_io_def pure_io_def assms monday_date
        fresh_world_def)
  show "process_transcript_with_ai e transcript_text (Some ''2024-01-15'')
           (fresh_world\<lparr>ticks := 1\<rparr>) =
         (Inr standup_record,
          fresh_world\<lparr>ticks := 1, chat_log := [primary_request transcript_text]\<rparr>)"
    by (simp add: process_transcript_cases primary_attempt_eq Let_def not_given_def assms
        office_chat_def primary_request_def first_content_def py_json_loads_def
        office_loads_def fresh_world_def)
  show "render_minutes e standup_record ''2024-01-15''
           (fresh_world\<lparr>ticks := 1, chat_log := [primary_request transcript_text]\<rparr>) =
         (Inr standup_html,
          fresh_world\<lparr>ticks := 2, chat_log := [primary_request transcript_text]\<rparr>)"
    by (simp add: render_minutes_def datetime_now_def bind_io_def pure_io_def assms
        standup_document fresh_world_def)
  show "generate_improvement_suggestions e standup_record
           (fresh_world\<lparr>ticks := 2, chat_log := [primary_request transcript_text]\<rparr>) =
         (Inr ''Keep the stand-up under ten minutes.'', before_publish)"
    by (simp add: generate_eq [OF standup_prompt] assms office_chat_def suggestion_request_def
        first_content_def before_publish_def fresh_world_def)
qed

lemma conflict_env_fields:
  "chat_completion conflict_env = office_chat" "json_loads conflict_env = office_loads"
  "py_repr conflict_env = example_repr" "clock conflict_env = (\<lambda>n. monday)"
  by (simp_all add: conflict_env_def office_env_def)

lemma conflict_found:
  "find_page_by_title conflict_env example_publisher (page_title ''2024-01-15'') before_publish =
   (Inr (Some page_v3),
    before_publish\<lparr>http_log := [find_request example_publisher (page_title ''2024-01-15'')]\<rparr>)"
  by (simp add: find_page_eq conflict_env_def office_env_def found_page_def ok_response_def
      py_item_def py_truthy_def py_first_def before_publish_def)

lemma error_codes:
  "status_code (error_response 500) \<noteq> 200"
  "''Confluence API error: '' @ str_nat (status_code (error_response 500)) =
   ''Confluence API error: 500''"
  "status_code (error_response 409) \<noteq> 200"
  "''Confluence API error: '' @ str_nat (status_code (error_response 409)) =
   ''Confluence API error: 409''"
  by (simp_all add: error_response_def str_nat.simps digit_char_def)


theorem publish_failure_writes_nothing_witness:
  "read_input refusing_env [''transcripts'', ''standup.txt''] = Inr transcript_text
   \<and> requests_post refusing_env
         (create_request example_publisher (page_title ''2024-01-15'') standup_page None) =
       Inr (error_response 500)
   \<and> fst (process_and_publish refusing_env publishing_generator transcript_text None fresh_world) =
       Inl (Exception ''Confluence API error: 500'')
   \<and> fst (process_file refusing_env publishing_generator [''transcripts'', ''standup.txt'']
            (Some [''out'']) fresh_world) =
       Inl (Exception ''Confluence API error: 500'')
   \<and> files (snd (process_file refusing_env publishing_generator [''transcripts'', ''standup.txt'']
                   (Some [''out'']) fresh_world)) = Map.empty
   \<and> dirs (snd (process_file refusing_env publishing_generator [''transcripts'', ''standup.txt'']
                  (Some [''out'']) fresh_world)) = {}
   \<and> requests_put conflict_env
         (update_request conflict_env example_publisher (JStr ''98765'')
            (page_title ''2024-01-15'') standup_page (JInt 4)) =
       Inr (error_response 409)
   \<and> fst (process_and_publish conflict_env publishing_generator transcript_text None fresh_world) =
       Inl (Exception ''Confluence API error: 409'')
   \<and> fst (process_file conflict_env publishing_generator [''transcripts'', ''standup.txt'']
            (Some [''out'']) fresh_world) =
       Inl (Exception ''Confluence API error: 409'')
   \<and> files (snd (process_file conflict_env publishing_generator [''transcripts'', ''standup.txt'']
                   (Some [''out'']) fresh_world)) = Map.empty
   \<and> dirs (snd (process_file conflict_env publishing_generator [''transcripts'', ''standup.txt'']
                  (Some [''out'']) fresh_world)) = {}
   \<and> dom (files (snd (process_file office_env publishing_generator [''transcripts'', ''standup.txt'']
                        (Some [''out'']) fresh_world))) =
       {[''out'', ''minutes_standup_20240115.html''], [''out'', ''minutes_standup_20240115.json'']}"
proof -
  let ?title = "page_title ''2024-01-15''"
  let ?w5 = "before_publish\<lparr>http_log := [find_request example_publisher ?title]\<rparr>"
  let ?input = "[''transcripts'', ''standup.txt'']"
  let ?x500 = "Exception ''Confluence API error: 500''"
  let ?x409 = "Exception ''Confluence API error: 409''"
  let ?wA = "fresh_world\<lparr>ticks := 1\<rparr>"
  let ?wB = "fresh_world\<lparr>ticks := 1, chat_log := [primary_request transcript_text]\<rparr>"
  let ?wC = "fresh_world\<lparr>ticks := 2, chat_log := [primary_request transcript_text]\<rparr>"
  let ?s = "''Keep the stand-up under ten minutes.''"
  have fw: "files fresh_world = Map.empty" "dirs fresh_world = {}"
    "confluence publishing_generator = Some example_publisher"
    by (simp_all add: fresh_world_def publishing_generator_def)
  have doc: "with_suggestions standup_html ?s = standup_page"
    by (simp add: with_suggestions_def standup_page_def)
  have rd: "read_input refusing_env ?input = Inr transcript_text"
    by (simp add: text_file_read refusing_env_def new_page_env_def office_env_def)
  have post: "requests_post refusing_env (create_request example_publisher ?title standup_page None) =
      Inr (error_response 500)"
    by (simp add: refusing_env_def)
  note r1 = publish_failure_writes_nothing
    [where e = refusing_env and self = example_publisher and title = ?title
       and content = standup_page and parent_id = None and response = "error_response 500"
       and w = ?w5 and existing_page = None]
  have created: "fst (create_or_update refusing_env example_publisher ?title
      (with_suggestions standup_html ?s) None ?w5) = Inl ?x500"
    using r1 [THEN conjunct1] r1 [THEN conjunct2, THEN conjunct2, THEN conjunct1] post error_codes
    by (simp add: doc)
  note st = office_stages [OF refusing_env_fields]
  note r2 = publish_failure_writes_nothing
    [where e = refusing_env and self = example_publisher and generator = publishing_generator
       and w = fresh_world and meeting_date = None and date = "''2024-01-15''" and ?w1.0 = ?wA
       and transcript = transcript_text and md = standup_record and ?w2.0 = ?wB
       and html = standup_html and ?w3.0 = ?wC and suggestions = ?s and ?w4.0 = before_publish
       and existing_page = None and ?w5.0 = ?w5 and x = ?x500 and input_file = ?input
       and output_dir = "Some [''out'']"]
  note r2' = r2 [THEN conjunct2, THEN conjunct2, THEN conjunct2, THEN conjunct2, THEN conjunct2,
      THEN conjunct2]
  have run1: "fst (process_and_publish refusing_env publishing_generator transcript_text None
      fresh_world) = Inl ?x500"
    using r2' [THEN conjunct1] st(1-4) fw(3) refusing_not_found created by simp
  have file1: "fst (process_file refusing_env publishing_generator ?input (Some [''out''])
        fresh_world) = Inl ?x500
      \<and> files (snd (process_file refusing_env publishing_generator ?input (Some [''out''])
                      fresh_world)) = files fresh_world
      \<and> dirs (snd (process_file refusing_env publishing_generator ?input (Some [''out''])
                     fresh_world)) = dirs fresh_world"
    using r2' [THEN conjunct2, THEN conjunct2] rd st(1-4) fw(3) refusing_not_found created
    by simp
  have rd2: "read_input conflict_env ?input = Inr transcript_text"
    by (simp add: text_file_read conflict_env_def office_env_def)
  have put: "requests_put conflict_env
         (update_request conflict_env example_publisher (JStr ''98765'') ?title standup_page
            (JInt 4)) = Inr (error_response 409)"
    by (simp add: conflict_env_def)
  note c1 = publish_failure_writes_nothing
    [where e = conflict_env and self = example_publisher and title = ?title
       and content = standup_page and page_id = "JStr ''98765''" and n = 3 and page = page_v3
       and response = "error_response 409" and w = ?w5]
  have updated: "fst (create_or_update conflict_env example_publisher ?title
      (with_suggestions standup_html ?s) (Some page_v3) ?w5) = Inl ?x409"
    using c1 [THEN conjunct2, THEN conjunct1]
      c1 [THEN conjunct2, THEN conjunct2, THEN conjunct2, THEN conjunct1] put error_codes
      page_v3_fields
    by (simp add: doc)
  note st2 = office_stages [OF conflict_env_fields]
  note c2 = publish_failure_writes_nothing
    [where e = conflict_env and self = example_publisher and generator = publishing_generator
       and w = fresh_world and meeting_date = None and date = "''2024-01-15''" and ?w1.0 = ?wA
       and transcript = transcript_text and md = standup_record and ?w2.0 = ?wB
       and html = standup_html and ?w3.0 = ?wC and suggestions = ?s and ?w4.0 = before_publish
       and existing_page = "Some page_v3" and ?w5.0 = ?w5 and x = ?x409 and input_file = ?input
       and output_dir = "Some [''out'']"]
  note c2' = c2 [THEN conjunct2, THEN conjunct2, THEN conjunct2, THEN conjunct2, THEN conjunct2,
      THEN conjunct2]
  have run2: "fst (process_and_publish conflict_env publishing_generator transcript_text None
      fresh_world) = Inl ?x409"
    using c2' [THEN conjunct1] st2(1-4) fw(3) conflict_found updated by simp
  have file2: "fst (process_file conflict_env publishing_generator ?input (Some [''out''])
        fresh_world) = Inl ?x409
      \<and> files (snd (process_file conflict_env publishing_generator ?input (Some [''out''])
                      fresh_world)) = files fresh_world
      \<and> dirs (snd (process_file conflict_env publishing_generator ?input (Some [''out''])
                     fresh_world)) = dirs fresh_world"
    using c2' [THEN conjunct2, THEN conjunct1] rd2 run2 by simp
  show ?thesis
    using rd post run1 file1 put run2 file2 office_files by (simp only: fw simp_thms)
qed

subsection \<open>The lookup\<close>

lemma publish_lookup_raises:
  assumes "fst (find_page_by_title e self (page_title date) w) = Inl x"
  shows "fst (publish e self md date html w) = Inl x"
    and "sent w (snd (publish e self md date html w)) = [find_request self (page_title date)]"
  using assms
  by (simp_all add: publish_def Let_def find_page_eq bind_io_def sent_def)

lemma publish_creates:
  assumes "fst (find_page_by_title e self (page_title date) w) = Inr None"
  shows "sent w (snd (publish e self md date html w)) =
         [find_request self (page_title date), create_request self (page_title date) html None]"
  using assms
  by (simp add: publish_log find_page_eq create_or_update_def create_page_eq sent_def)

lemma offline_lookup:
  "fst (find_page_by_title offline_env example_publisher title w) =
   Inl (OtherError ''requests.exceptions.ConnectionError'')"
  by (simp add: find_page_eq offline_env_def)

lemma odd_answer_lookup:
  "fst (find_page_by_title odd_answer_env example_publisher title w) = Inl KeyError"
  by (simp add: find_page_eq odd_answer_env_def found_page_def ok_response_def py_item_def)

lemma offline_env_fields:
  "chat_completion offline_env = office_chat" "json_loads offline_env = office_loads"
  "py_repr offline_env = example_repr" "clock offline_env = (\<lambda>n. monday)"
  by (simp_all add: offline_env_def office_env_def)

lemma not_found_env_fields:
  "chat_completion not_found_env = office_chat" "json_loads not_found_env = office_loads"
  "py_repr not_found_env = example_repr" "clock not_found_env = (\<lambda>n. monday)"
  by (simp_all add: not_found_env_def office_env_def)

text \<open>
  C10, as stated, fails: \<^verbatim>\<open>find_page_by_title\<close> has no handler. When \<^verbatim>\<open>requests.get\<close>
  raises (here a connection error), the lookup raises, the run raises the same
  exception, and the only request that was sent is the lookup: no create is attempted.
  A response with status 200 whose body has no \<^verbatim>\<open>results\<close> entry raises
  \<^verbatim>\<open>KeyError\<close>.
\<close>

theorem lookup_raises_counterexample:
  "fst (find_page_by_title offline_env example_publisher ''Stand-up Minutes - 2024-01-15''
          before_publish) =
     Inl (OtherError ''requests.exceptions.ConnectionError'')
   \<and> fst (process_and_publish offline_env publishing_generator transcript_text None fresh_world) =
       Inl (OtherError ''requests.exceptions.ConnectionError'')
   \<and> sent fresh_world
        (snd (process_and_publish offline_env publishing_generator transcript_text None fresh_world)) =
       [find_request example_publisher ''Stand-up Minutes - 2024-01-15'']
   \<and> fst (find_page_by_title odd_answer_env example_publisher ''Stand-up Minutes - 2024-01-15''
            before_publish) = Inl KeyError"
proof -
  have log: "sent fresh_world w = sent before_publish w" for w
    by (simp add: sent_def fresh_world_def before_publish_def)
  show ?thesis
    using publish_lookup_raises
      [where e = offline_env and self = example_publisher and date = "''2024-01-15''"
         and w = before_publish, OF offline_lookup]
    by (simp add: offline_lookup odd_answer_lookup office_run offline_env_fields
        publishing_generator_def log page_title_def)
qed

text \<open>
  C10, amended. When the response of the lookup has a status other than 200, and when it
  has status 200 and the \<^verbatim>\<open>results\<close> of its body are empty, \<^verbatim>\<open>find_page_by_title\<close>
  returns \<^verbatim>\<open>None\<close>; after a lookup that returned \<^verbatim>\<open>None\<close> the publisher sends the
  create request, so a lookup that was answered with an error status is treated as a
  page that does not exist. An exception of \<^verbatim>\<open>requests.get\<close>, of \<^verbatim>\<open>response.json()\<close>
  or of \<^verbatim>\<open>data["results"]\<close> is raised by \<^verbatim>\<open>find_page_by_title\<close>, and then the
  publisher raises it too and sends nothing after the lookup. The last two parts state
  both for a run of \<^verbatim>\<open>process_and_publish\<close> in which the date, the extraction, the
  rendering and the suggestions returned and a publisher is configured: when the lookup
  raises, the run raises the same exception and the lookup is the only request it sent;
  when the lookup returns \<^verbatim>\<open>None\<close>, the run sends the lookup and then the create
  request of the document.
\<close>

theorem error_status_lookup_is_absent_page:
  "(requests_get e (find_request self title) = Inr response \<and> status_code response \<noteq> 200
    \<longrightarrow> fst (find_page_by_title e self title w) = Inr None)
   \<and> (requests_get e (find_request self title) = Inr response \<and> status_code response = 200
      \<and> body_json response = Inr data \<and> py_item data ''results'' = Inr results
      \<and> \<not> py_truthy results
    \<longrightarrow> fst (find_page_by_title e self title w) = Inr None)
   \<and> (fst (find_page_by_title e self (page_title date) w) = Inr None
    \<longrightarrow> sent w (snd (publish e self md date html w)) =
          [find_request self (page_title date),
           create_request self (page_title date) html None])
   \<and> (requests_get e (find_request self title) = Inl x
    \<longrightarrow> fst (find_page_by_title e self title w) = Inl x)
   \<and> (requests_get e (find_request self title) = Inr response \<and> status_code response = 200
      \<and> bind_exn (body_json response) (\<lambda>data. py_item data ''results'') = Inl x
    \<longrightarrow> fst (find_page_by_title e self title w) = Inl x)
   \<and> (fst (find_page_by_title e self (page_title date) w) = Inl x
    \<longrightarrow> fst (publish e self md date html w) = Inl x
        \<and> sent w (snd (publish e self md date html w)) = [find_request self (page_title date)])
   \<and> (resolve_date e meeting_date w = (Inr date, w1)
      \<and> process_transcript_with_ai e transcript (Some date) w1 = (Inr md, w2)
      \<and> render_minutes e md date w2 = (Inr html, w3)
      \<and> generate_improvement_suggestions e md w3 = (Inr suggestions, w4)
      \<and> confluence generator = Some self
      \<and> fst (find_page_by_title e self (page_title date) w4) = Inl x
    \<longrightarrow> fst (process_and_publish e generator transcript meeting_date w) = Inl x
        \<and> sent w (snd (process_and_publish e generator transcript meeting_date w)) =
            [find_request self (page_title date)])
   \<and> (resolve_date e meeting_date w = (Inr date, w1)
      \<and> process_transcript_with_ai e transcript (Some date) w1 = (Inr md, w2)
      \<and> render_minutes e md date w2 = (Inr html, w3)
      \<and> generate_improvement_suggestions e md w3 = (Inr suggestions, w4)
      \<and> confluence generator = Some self
      \<and> fst (find_page_by_title e self (page_title date) w4) = Inr None
    \<longrightarrow> sent w (snd (process_and_publish e generator transcript meeting_date w)) =
          [find_request self (page_title date),
           create_request self (page_title date) (with_suggestions html suggestions) None])"
proof -
  have 5: "fst (find_page_by_title e self title w) = Inl x"
    if "requests_get e (find_request self title) = Inr response" "status_code response = 200"
      "bind_exn (body_json response) (\<lambda>data. py_item data ''results'') = Inl x"
    using that
    by (cases "body_json response") (simp_all add: find_page_eq found_page_def)
  have first6: "(requests_get e (find_request self title) = Inr response \<and> status_code response \<noteq> 200
        \<longrightarrow> fst (find_page_by_title e self title w) = Inr None)
       \<and> (requests_get e (find_request self title) = Inr response \<and> status_code response = 200
          \<and> body_json response = Inr data \<and> py_item data ''results'' = Inr results
          \<and> \<not> py_truthy results
        \<longrightarrow> fst (find_page_by_title e self title w) = Inr None)
       \<and> (fst (find_page_by_title e self (page_title date) w) = Inr None
        \<longrightarrow> sent w (snd (publish e self md date html w)) =
              [find_request self (page_title date),
               create_request self (page_title date) html None])
       \<and> (requests_get e (find_request self title) = Inl x
        \<longrightarrow> fst (find_page_by_title e self title w) = Inl x)
       \<and> (requests_get e (find_request self title) = Inr response \<and> status_code response = 200
          \<and> bind_exn (body_json response) (\<lambda>data. py_item data ''results'') = Inl x
        \<longrightarrow> fst (find_page_by_title e self title w) = Inl x)
       \<and> (fst (find_page_by_title e self (page_title date) w) = Inl x
        \<longrightarrow> fst (publish e self md date html w) = Inl x
            \<and> sent w (snd (publish e self md date html w)) = [find_request self (page_title date)])"
    using 5 publish_creates publish_lookup_raises
    by (simp add: find_page_eq found_page_def)
  have run: "process_and_publish e generator transcript meeting_date w =
          publish e self md date (with_suggestions html suggestions) w4
        \<and> sent w w' = sent w4 w'"
    if "resolve_date e meeting_date w = (Inr date, w1)"
      "process_transcript_with_ai e transcript (Some date) w1 = (Inr md, w2)"
      "render_minutes e md date w2 = (Inr html, w3)"
      "generate_improvement_suggestions e md w3 = (Inr suggestions, w4)"
      "confluence generator = Some self" for w'
    using process_and_publish_stages [OF that(1-4), of generator] that(5)
      stages_http_log [OF that(1-4)]
    by (simp add: sent_def)
  have 7: "(resolve_date e meeting_date w = (Inr date, w1)
        \<and> process_transcript_with_ai e transcript (Some date) w1 = (Inr md, w2)
        \<and> render_minutes e md date w2 = (Inr html, w3)
        \<and> generate_improvement_suggestions e md w3 = (Inr suggestions, w4)
        \<and> confluence generator = Some self
        \<and> fst (find_page_by_title e self (page_title date) w4) = Inl x
      \<longrightarrow> fst (process_and_publish e generator transcript meeting_date w) = Inl x
          \<and> sent w (snd (process_and_publish e generator transcript meeting_date w)) =
              [find_request self (page_title date)])"
    using run publish_lookup_raises [of e self date w4 x md "with_suggestions html suggestions"]
    by simp
  have 8: "(resolve_date e meeting_date w = (Inr date, w1)
        \<and> process_transcript_with_ai e transcript (Some date) w1 = (Inr md, w2)
        \<and> render_minutes e md date w2 = (Inr html, w3)
        \<and> generate_improvement_suggestions e md w3 = (Inr suggestions, w4)
        \<and> confluence generator = Some self
        \<and> fst (find_page_by_title e self (page_title date) w4) = Inr None
      \<longrightarrow> sent w (snd (process_and_publish e generator transcript meeting_date w)) =
            [find_request self (page_title date),
             create_request self (page_title date) (with_suggestions html suggestions) None])"
    using run publish_creates [of e self date w4 md "with_suggestions html suggestions"]
    by simp
  show ?thesis
    using first6 7 8 by (elim conjE, intro conjI) assumption+
qed


theorem error_status_lookup_is_absent_page_witness:
  "requests_get not_found_env (find_request example_publisher ''Stand-up Minutes - 2024-01-15'') =
     Inr (error_response 404)
   \<and> status_code (error_response 404) \<noteq> 200
   \<and> fst (find_page_by_title not_found_env example_publisher ''Stand-up Minutes - 2024-01-15''
            before_publish) = Inr None
   \<and> sent fresh_world
        (snd (process_and_publish not_found_env publishing_generator transcript_text None
               fresh_world)) =
       [find_request example_publisher ''Stand-up Minutes - 2024-01-15'',
        create_request example_publisher ''Stand-up Minutes - 2024-01-15'' standup_page None]
   \<and> fst (find_page_by_title new_page_env example_publisher ''Stand-up Minutes - 2024-01-15''
            before_publish) = Inr None
   \<and> requests_get offline_env (find_request example_publisher ''Stand-up Minutes - 2024-01-15'') =
       Inl (OtherError ''requests.exceptions.ConnectionError'')
   \<and> fst (publish offline_env example_publisher standup_record ''2024-01-15'' standup_page
            before_publish) = Inl (OtherError ''requests.exceptions.ConnectionError'')
   \<and> sent before_publish
        (snd (publish offline_env example_publisher standup_record ''2024-01-15'' standup_page
               before_publish)) =
       [find_request example_publisher ''Stand-up Minutes - 2024-01-15'']
   \<and> fst (find_page_by_title odd_answer_env example_publisher ''Stand-up Minutes - 2024-01-15''
            before_publish) = Inl KeyError
   \<and> fst (process_and_publish offline_env publishing_generator transcript_text None fresh_world) =
       Inl (OtherError ''requests.exceptions.ConnectionError'')
   \<and> sent fresh_world
        (snd (process_and_publish offline_env publishing_generator transcript_text None
               fresh_world)) =
       [find_request example_publisher ''Stand-up Minutes - 2024-01-15'']
   \<and> fst (process_and_publish odd_answer_env publishing_generator transcript_text None
            fresh_world) = Inl KeyError
   \<and> sent fresh_world
        (snd (process_and_publish odd_answer_env publishing_generator transcript_text None
               fresh_world)) =
       [find_request example_publisher ''Stand-up Minutes - 2024-01-15'']"
proof -
  let ?wA = "fresh_world\<lparr>ticks := 1\<rparr>"
  let ?wB = "fresh_world\<lparr>ticks := 1, chat_log := [primary_request transcript_text]\<rparr>"
  let ?wC = "fresh_world\<lparr>ticks := 2, chat_log := [primary_request transcript_text]\<rparr>"
  let ?s = "''Keep the stand-up under ten minutes.''"
  have doc: "with_suggestions standup_html ?s = standup_page"
    by (simp add: with_suggestions_def standup_page_def)
  have gen: "confluence publishing_generator = Some example_publisher"
    by (simp add: publishing_generator_def)
  let ?title = "''Stand-up Minutes - 2024-01-15''"
  let ?find = "find_request example_publisher ?title"
  have title: "page_title ''2024-01-15'' = ?title" by (simp add: page_title_def)
  have get1: "requests_get not_found_env ?find = Inr (error_response 404)"
    by (simp add: not_found_env_def)
  have st: "status_code (error_response 404) \<noteq> 200" by (simp add: error_response_def)
  note nf = error_status_lookup_is_absent_page
    [where e = not_found_env and self = example_publisher and title = ?title
       and response = "error_response 404" and w = before_publish and date = "''2024-01-15''"
       and md = standup_record and html = standup_page]
  have none1: "fst (find_page_by_title not_found_env example_publisher ?title before_publish) =
      Inr None"
    using nf [THEN conjunct1] get1 st by simp
  note nf_run = error_status_lookup_is_absent_page
    [where e = not_found_env and self = example_publisher and generator = publishing_generator
       and w = fresh_world and meeting_date = None and date = "''2024-01-15''" and ?w1.0 = ?wA
       and transcript = transcript_text and md = standup_record and ?w2.0 = ?wB
       and html = standup_html and ?w3.0 = ?wC and suggestions = ?s and ?w4.0 = before_publish,
     THEN conjunct2, THEN conjunct2, THEN conjunct2, THEN conjunct2, THEN conjunct2,
     THEN conjunct2, THEN conjunct2]
  have sent1: "sent fresh_world
        (snd (process_and_publish not_found_env publishing_generator transcript_text None
               fresh_world)) =
       [?find, create_request example_publisher ?title standup_page None]"
    using nf_run office_stages [OF not_found_env_fields] gen none1
    by (simp add: title doc)
  have get2: "requests_get new_page_env ?find = Inr (ok_response (JObj [(''results'', JArr [])]))"
    by (simp add: new_page_env_def)
  have none2: "fst (find_page_by_title new_page_env example_publisher ?title before_publish) =
      Inr None"
    using error_status_lookup_is_absent_page
      [where e = new_page_env and self = example_publisher and title = ?title
         and response = "ok_response (JObj [(''results'', JArr [])])"
         and data = "JObj [(''results'', JArr [])]" and results = "JArr []"
         and w = before_publish, THEN conjunct2, THEN conjunct1] get2
    by (simp add: ok_response_def py_item_def py_truthy_def)
  have get3: "requests_get offline_env ?find = Inl (OtherError ''requests.exceptions.ConnectionError'')"
    by (simp add: offline_env_def)
  note off = error_status_lookup_is_absent_page
    [where e = offline_env and self = example_publisher and title = ?title
       and x = "OtherError ''requests.exceptions.ConnectionError''" and w = before_publish
       and date = "''2024-01-15''" and md = standup_record and html = standup_page]
  have raised: "fst (find_page_by_title offline_env example_publisher ?title before_publish) =
      Inl (OtherError ''requests.exceptions.ConnectionError'')"
    using off [THEN conjunct2, THEN conjunct2, THEN conjunct2, THEN conjunct1] get3 by simp
  have pub3: "fst (publish offline_env example_publisher standup_record ''2024-01-15'' standup_page
            before_publish) = Inl (OtherError ''requests.exceptions.ConnectionError'')
      \<and> sent before_publish
        (snd (publish offline_env example_publisher standup_record ''2024-01-15'' standup_page
               before_publish)) = [?find]"
    using off [THEN conjunct2, THEN conjunct2, THEN conjunct2, THEN conjunct2, THEN conjunct2]
      raised
    by (simp add: title)
  have get4: "requests_get odd_answer_env ?find = Inr (ok_response (JObj []))"
    by (simp add: odd_answer_env_def)
  have odd: "fst (find_page_by_title odd_answer_env example_publisher ?title before_publish) =
      Inl KeyError"
    using error_status_lookup_is_absent_page
      [where e = odd_answer_env and self = example_publisher and title = ?title
         and response = "ok_response (JObj [])" and x = KeyError and w = before_publish,
       THEN conjunct2, THEN conjunct2, THEN conjunct2, THEN conjunct2, THEN conjunct1] get4
    by (simp add: ok_response_def py_item_def)
  note off_run = error_status_lookup_is_absent_page
    [where e = offline_env and self = example_publisher and generator = publishing_generator
       and w = fresh_world and meeting_date = None and date = "''2024-01-15''" and ?w1.0 = ?wA
       and transcript = transcript_text and md = standup_record and ?w2.0 = ?wB
       and html = standup_html and ?w3.0 = ?wC and suggestions = ?s and ?w4.0 = before_publish
       and x = "OtherError ''requests.exceptions.ConnectionError''",
     THEN conjunct2, THEN conjunct2, THEN conjunct2, THEN conjunct2, THEN conjunct2,
     THEN conjunct2, THEN conjunct1]
  have run3: "fst (process_and_publish offline_env publishing_generator transcript_text None
        fresh_world) = Inl (OtherError ''requests.exceptions.ConnectionError'')
      \<and> sent fresh_world
        (snd (process_and_publish offline_env publishing_generator transcript_text None
               fresh_world)) = [?find]"
    using off_run office_stages [OF offline_env_fields] gen raised
    by (simp add: title)
  have odd_fields:
    "chat_completion odd_answer_env = office_chat" "json_loads odd_answer_env = office_loads"
    "py_repr odd_answer_env = example_repr" "clock odd_answer_env = (\<lambda>n. monday)"
    by (simp_all add: odd_answer_env_def office_env_def)
  note odd_run = error_status_lookup_is_absent_page
    [where e = odd_answer_env and self = example_publisher and generator = publishing_generator
       and w = fresh_world and meeting_date = None and date = "''2024-01-15''" and ?w1.0 = ?wA
       and transcript = transcript_text and md = standup_record and ?w2.0 = ?wB
       and html = standup_html and ?w3.0 = ?wC and suggestions = ?s and ?w4.0 = before_publish
       and x = KeyError,
     THEN conjunct2, THEN conjunct2, THEN conjunct2, THEN conjunct2, THEN conjunct2,
     THEN conjunct2, THEN conjunct1]
  have run4: "fst (process_and_publish odd_answer_env publishing_generator transcript_text None
        fresh_world) = Inl KeyError
      \<and> sent fresh_world
        (snd (process_and_publish odd_answer_env publishing_generator transcript_text None
               fresh_world)) = [?find]"
    using odd_run office_stages [OF odd_fields] gen odd
    by (simp add: title)
  show ?thesis
    by (intro conjI)
       (rule get1 st none1 sent1 none2 get3 pub3 [THEN conjunct1] pub3 [THEN conjunct2] odd
          run3 [THEN conjunct1] run3 [THEN conjunct2] run4 [THEN conjunct1]
          run4 [THEN conjunct2])+
qed

end
